theory Spec2Isabelle
  imports Main "HOL-Library.Sublist" "HOL-Library.Log_Nat"
begin

section \<open>Python values used by the chatbot\<close>

text \<open>
  The exceptions that the modelled statements can raise. All of them are subclasses of
  Python's \<^verbatim>\<open>Exception\<close>, so an \<^verbatim>\<open>except Exception\<close> clause catches each of them.
\<close>

datatype py_error =
  KeyError | IndexError | TypeError | AttributeError | ValueError | RuntimeError | RequestException

subsection \<open>Strings\<close>

text \<open>
  A text is a list of code points. The model covers the code points below 256 (one
  \<^typ>\<open>char\<close> each); on these, \<^verbatim>\<open>str.isspace\<close> holds for 9 to 13, 28 to 32, 133 and
  160, and \<^verbatim>\<open>str.lower\<close> adds 32 to the capital letters 65 to 90 and 192 to 222 (215, the
  multiplication sign, apart) and keeps every other code point.
\<close>

definition is_space :: "char \<Rightarrow> bool" where
  "is_space c =
     (let n = (of_char c :: nat)
      in (9 \<le> n \<and> n \<le> 13) \<or> (28 \<le> n \<and> n \<le> 32) \<or> n = 133 \<or> n = 160)"

definition strip :: "string \<Rightarrow> string" where
  "strip text = rev (dropWhile is_space (rev (dropWhile is_space text)))"

definition lower_char :: "char \<Rightarrow> char" where
  "lower_char c =
     (let n = (of_char c :: nat)
      in if (65 \<le> n \<and> n \<le> 90) \<or> (192 \<le> n \<and> n \<le> 222 \<and> n \<noteq> 215)
         then char_of (n + 32) else c)"

definition lower :: "string \<Rightarrow> string" where
  "lower text = map lower_char text"

text \<open>
  \<^verbatim>\<open>keyword in text\<close> on two strings is the substring test, \<^term>\<open>sublist keyword text\<close>.
\<close>

subsection \<open>Floats\<close>

text \<open>
  A Python float is an IEEE binary64 number; it is modelled by the rational number it
  denotes. Every arithmetic operation computes the exact result and rounds it to the
  nearest number with a 53-bit significand, ties to even. \<open>binade x\<close> is the exponent
  \<open>e\<close> with \<open>2\<^sup>e \<le> |x| < 2\<^sup>e\<^sup>+\<^sup>1\<close>. Overflow and subnormal numbers are not modelled:
  every float computed by the program lies between \<open>2\<^sup>-\<^sup>7\<close> and \<open>1\<close>.
\<close>

definition round_half_even :: "rat \<Rightarrow> int" where
  "round_half_even x =
     (let f = \<lfloor>x\<rfloor>; d = x - of_int f
      in if d < 1 / 2 then f else if 1 / 2 < d then f + 1 else if even f then f else f + 1)"

definition binade :: "rat \<Rightarrow> int" where
  "binade x =
     (let (p, q) = quotient_of \<bar>x\<bar>; e = bitlen p - bitlen q
      in if 2 powi e \<le> \<bar>x\<bar> then e else e - 1)"

definition double :: "rat \<Rightarrow> rat" where
  "double x =
     (if x = 0 then 0
      else let ulp = 2 powi (binade x - 52) in of_int (round_half_even (x / ulp)) * ulp)"

text \<open>The float literals of the source: each denotes the double nearest to the decimal.\<close>

definition d0_9 :: rat where "d0_9 = double (9 / 10)"
definition d0_7 :: rat where "d0_7 = double (7 / 10)"
definition d0_5 :: rat where "d0_5 = double (5 / 10)"
definition d0_4 :: rat where "d0_4 = double (4 / 10)"
definition d0_3 :: rat where "d0_3 = double (3 / 10)"

definition float_add :: "rat \<Rightarrow> rat \<Rightarrow> rat" where
  "float_add a b = double (a + b)"

definition float_mul :: "rat \<Rightarrow> rat \<Rightarrow> rat" where
  "float_mul a b = double (a * b)"

text \<open>
  \<^verbatim>\<open>a / b\<close> on two integers is true division, correctly rounded. The one division of the
  program is guarded by \<^verbatim>\<open>total_matches > 0\<close>, so the divisor is never zero there.
\<close>

definition int_truediv :: "nat \<Rightarrow> nat \<Rightarrow> rat" where
  "int_truediv a b = double (of_nat a / of_nat b)"

section \<open>emotion\_detector.py\<close>

text \<open>
  \<^verbatim>\<open>EMOTION_KEYWORDS\<close>: a dictionary literal with distinct keys. Python iterates over it
  in the order of the literal, so it is an association list.
\<close>

definition EMOTION_KEYWORDS :: "(string \<times> string list) list" where
  "EMOTION_KEYWORDS =
    [(''joy'', [''happy'', ''glad'', ''joy'', ''excited'', ''pleased'', ''delighted'',
                ''content'', ''cheerful'', ''thrilled'', ''wonderful'']),
     (''sadness'', [''sad'', ''unhappy'', ''depressed'', ''down'', ''miserable'',
                ''heartbroken'', ''gloomy'', ''disappointed'', ''upset'', ''grief'']),
     (''anger'', [''angry'', ''mad'', ''furious'', ''irritated'', ''annoyed'', ''frustrated'',
                ''outraged'', ''enraged'', ''hostile'', ''bitter'']),
     (''fear'', [''afraid'', ''scared'', ''frightened'', ''terrified'', ''anxious'',
                ''worried'', ''nervous'', ''panicked'', ''stressed'', ''uneasy'']),
     (''neutral'', [''okay'', ''fine'', ''neutral'', ''normal'', ''average'', ''so-so''])]"

text \<open>
  The result dictionary of \<^verbatim>\<open>detect_emotion\<close>. The key \<^verbatim>\<open>all_emotions\<close> is present only
  in the results of the learned model. The fields take the names of the keys, so a
  variable that the source calls \<^verbatim>\<open>emotion\<close> is \<open>emo\<close> below.
\<close>

record detection =
  emotion :: string
  confidence :: rat
  "method" :: string
  all_emotions :: "(string \<times> rat) list option"

text \<open>
  The inner loop of \<^verbatim>\<open>_detect_with_keywords\<close> over the keywords of one category; the
  accumulator is \<^verbatim>\<open>emotion_scores[emotion]\<close>.
\<close>

fun count_keywords :: "string list \<Rightarrow> string \<Rightarrow> nat \<Rightarrow> nat" where
  "count_keywords [] text score = score"
| "count_keywords (keyword # keywords) text score =
     count_keywords keywords text (if sublist keyword text then score + 1 else score)"

definition emotion_scores :: "string \<Rightarrow> (string \<times> nat) list" where
  "emotion_scores text =
     map (\<lambda>(emotion, keywords). (emotion, count_keywords keywords text 0)) EMOTION_KEYWORDS"

text \<open>The second loop: the state is \<^verbatim>\<open>(max_score, detected_emotion)\<close>.\<close>

fun highest_score :: "(string \<times> nat) list \<Rightarrow> nat \<times> string \<Rightarrow> nat \<times> string" where
  "highest_score [] acc = acc"
| "highest_score ((emo, score) # rest) (max_score, detected_emotion) =
     highest_score rest
       (if max_score < score then (score, emo) else (max_score, detected_emotion))"

definition keyword_confidence :: "nat \<Rightarrow> nat \<Rightarrow> rat" where
  "keyword_confidence max_score total_matches =
     (if 0 < total_matches
      then min d0_9 (float_add d0_5 (float_mul (int_truediv max_score total_matches) d0_4))
      else d0_5)"

definition detect_with_keywords :: "string \<Rightarrow> string \<times> rat" where
  "detect_with_keywords text0 =
     (let text = lower text0;
          scores = emotion_scores text;
          (max_score, detected_emotion) = highest_score scores (0, ''neutral'');
          total_matches = sum_list (map snd scores)
      in (detected_emotion, keyword_confidence max_score total_matches))"

text \<open>
  The learned model, when one is loaded: what \<^verbatim>\<open>Sentence(text)\<close>, \<^verbatim>\<open>predict\<close> and
  \<^verbatim>\<open>get_labels\<close> do on a text. Either one of them raises, or the labels come back, each
  with its \<^verbatim>\<open>value\<close> and \<^verbatim>\<open>score\<close>.
\<close>

type_synonym flair_model = "string \<Rightarrow> py_error + (string \<times> rat) list"

text \<open>
  The body of the \<^verbatim>\<open>try\<close> block: \<open>Inr (Some r)\<close> when it returns \<open>r\<close>, \<open>Inr None\<close> when
  there is no label and control leaves the block, \<open>Inl e\<close> when it raises.
\<close>

definition flair_body :: "flair_model \<Rightarrow> string \<Rightarrow> py_error + detection option" where
  "flair_body model text =
     (case model text of
        Inl e \<Rightarrow> Inl e
      | Inr labels \<Rightarrow>
          (case labels of
             [] \<Rightarrow> Inr None
           | emotion_label # _ \<Rightarrow>
               Inr (Some \<lparr>emotion = lower (fst emotion_label),
                          confidence = snd emotion_label, method = ''flair'',
                          all_emotions =
                            Some (map (\<lambda>label. (lower (fst label), snd label)) labels)\<rparr>)))"

definition keyword_result :: "string \<Rightarrow> detection" where
  "keyword_result text =
     (let (emotion, confidence) = detect_with_keywords text
      in \<lparr>emotion = emotion, confidence = confidence, method = ''keywords'',
          all_emotions = None\<rparr>)"

definition default_result :: detection where
  "default_result =
     \<lparr>emotion = ''neutral'', confidence = 0, method = ''default'', all_emotions = None\<rparr>"

text \<open>
  \<^verbatim>\<open>detect_emotion\<close>; the first argument is \<^verbatim>\<open>self.emotion_model\<close>, \<open>None\<close> when no model
  was loaded. The \<^verbatim>\<open>except Exception\<close> clause logs and falls through to the keywords.
\<close>

definition detect_emotion :: "flair_model option \<Rightarrow> string \<Rightarrow> py_error + detection" where
  "detect_emotion emotion_model text =
     (if text = [] \<or> strip text = [] then Inr default_result
      else case emotion_model of
             None \<Rightarrow> Inr (keyword_result text)
           | Some model \<Rightarrow>
               (case flair_body model text of
                  Inr (Some result) \<Rightarrow> Inr result
                | Inr None \<Rightarrow> Inr (keyword_result text)
                | Inl e \<Rightarrow> Inr (keyword_result text)))"


text \<open>
  The categories in the iteration order of \<^verbatim>\<open>EMOTION_KEYWORDS\<close>, and, in the words of the
  specification, the number of keywords of a category that occur in a text as substrings.
  \<open>first_max xs i\<close>: position \<open>i\<close> holds a highest score of \<open>xs\<close> and every earlier
  position a strictly lower one.
\<close>

definition categories :: "string list" where
  "categories = map fst EMOTION_KEYWORDS"

definition keyword_count :: "string \<Rightarrow> string \<Rightarrow> nat" where
  "keyword_count category text =
     (case map_of EMOTION_KEYWORDS category of
        None \<Rightarrow> 0
      | Some ks \<Rightarrow> length (filter (\<lambda>k. sublist k text) ks))"

definition first_max :: "(string \<times> nat) list \<Rightarrow> nat \<Rightarrow> bool" where
  "first_max xs i \<longleftrightarrow>
     i < length xs \<and> (\<forall>j<length xs. snd (xs ! j) \<le> snd (xs ! i)) \<and>
     (\<forall>j<i. snd (xs ! j) < snd (xs ! i))"

section \<open>actions.py\<close>

subsection \<open>The response tables\<close>

text \<open>
  Both tables are dictionary literals with distinct keys, read with \<^verbatim>\<open>key in table\<close> and
  \<^verbatim>\<open>table[key]\<close>; the latter raises \<^verbatim>\<open>KeyError\<close> on a missing key.
\<close>

definition THERAPY_TECHNIQUES :: "(string \<times> string list) list" where
  "THERAPY_TECHNIQUES =
    [(''sadness'',
      [''Practice self-compassion by treating yourself with the same kindness you'd offer to a friend.'',
       ''Try journaling about your feelings to help process them.'',
       ''Engage in light physical activity like walking, which can help improve your mood.'',
       ''Connect with a supportive friend or family member.'',
       ''Remember that emotions are temporary and will pass with time.'']),
     (''anger'',
      [''Take deep breaths, counting to 10 before responding.'',
       ''Try the 5-4-3-2-1 grounding technique to calm your nervous system.'',
       ''Consider the situation from the other person's perspective.'',
       ''Express your feelings using 'I' statements rather than accusations.'',
       ''Step away from the situation temporarily if possible to cool down.'']),
     (''fear'',
      [''Practice mindful breathing to center yourself in the present moment.'',
       ''Challenge catastrophic thinking by examining the evidence for your fears.'',
       ''Break overwhelming tasks into smaller, manageable steps.'',
       ''Visualize yourself successfully handling the situation you fear.'',
       ''Remember past situations where you successfully overcame your fears.'']),
     (''joy'',
      [''Savor this positive moment by being fully present in it.'',
       ''Express gratitude for the good things in your life.'',
       ''Share your happiness with others to strengthen connections.'',
       ''Reflect on what contributed to this positive feeling.'',
       ''Use this positive energy to tackle something challenging.'']),
     (''neutral'',
      [''Practice mindfulness to become more aware of your thoughts and feelings.'',
       ''Set small, achievable goals to create a sense of accomplishment.'',
       ''Explore activities that have brought you joy in the past.'',
       ''Consider starting a gratitude practice to notice positive aspects of your life.'',
       ''Take care of your physical needs like sleep, nutrition, and exercise.''])]"

definition EMPATHETIC_RESPONSES :: "(string \<times> string list) list" where
  "EMPATHETIC_RESPONSES =
    [(''sadness'',
      [''I hear that you're feeling down right now. That's completely valid, and I'm here to listen.'',
       ''It sounds like you're going through a difficult time. Remember that it's okay to feel sad sometimes.'',
       ''I'm sorry you're feeling this way. Would it help to talk more about what's troubling you?'',
       ''When we feel sad, it can be overwhelming. Let's take it one step at a time together.'',
       ''I understand that sadness can feel heavy. You don't have to carry that weight alone.'']),
     (''anger'',
      [''I can sense your frustration. It's completely natural to feel angry sometimes.'',
       ''Your feelings are valid. Would it help to explore what's behind this anger?'',
       ''It sounds like this situation has really upset you, and that's understandable.'',
       ''Anger often comes from feeling unheard or disrespected. I'm here to listen to you.'',
       ''I appreciate you sharing these strong feelings with me. Let's work through this together.'']),
     (''fear'',
      [''It's okay to feel anxious or scared. These feelings are trying to protect you.'',
       ''I hear that you're worried. Would it help to talk about what's causing this fear?'',
       ''Feeling anxious can be really uncomfortable. You're brave for acknowledging these feelings.'',
       ''When we're afraid, our minds often focus on the worst possibilities. Let's explore this together.'',
       ''Your concerns are valid. Let's take a moment to breathe and think about this situation.'']),
     (''joy'',
      [''It's wonderful to hear you're feeling positive! Your happiness is important.'',
       ''I'm so glad things are going well for you. Would you like to share more about what's bringing you joy?'',
       ''That sounds really positive! It's great that you're experiencing these good feelings.'',
       ''I'm happy to hear that! Celebrating these positive moments is important.'',
       ''Your positive energy is contagious. Thank you for sharing this happy moment.'']),
     (''neutral'',
      [''I'm here to support you, whatever you might be feeling right now.'',
       ''How are you feeling about everything that's going on?'',
       ''I'm listening and here to help in any way I can.'',
       ''Would you like to explore any particular thoughts or feelings today?'',
       ''Sometimes taking a moment to check in with ourselves can be helpful. How are you really doing?''])]"

definition has_key :: "string \<Rightarrow> (string \<times> 'v) list \<Rightarrow> bool" where
  "has_key k table = (map_of table k \<noteq> None)"

definition subscript :: "(string \<times> 'v) list \<Rightarrow> string \<Rightarrow> py_error + 'v" where
  "subscript table k = (case map_of table k of None \<Rightarrow> Inl KeyError | Some v \<Rightarrow> Inr v)"

subsection \<open>The remote text-generation service\<close>

text \<open>
  What \<^verbatim>\<open>response.json()\<close> returns: any JSON value. An object is the parsed dictionary,
  a list of pairs that holds each key once.
\<close>

datatype json =
  JNull | JBool bool | JNum rat | JStr string | JArr "json list" | JObj "(string \<times> json) list"

text \<open>\<^verbatim>\<open>key in x\<close> for a string \<^verbatim>\<open>key\<close>.\<close>

fun py_contains :: "string \<Rightarrow> json \<Rightarrow> py_error + bool" where
  "py_contains k (JObj d) = Inr (map_of d k \<noteq> None)"
| "py_contains k (JArr xs) = Inr (JStr k \<in> set xs)"
| "py_contains k (JStr s) = Inr (sublist k s)"
| "py_contains k JNull = Inl TypeError"
| "py_contains k (JBool b) = Inl TypeError"
| "py_contains k (JNum n) = Inl TypeError"

text \<open>\<^verbatim>\<open>x[key]\<close> for a string \<^verbatim>\<open>key\<close>.\<close>

fun getitem_key :: "json \<Rightarrow> string \<Rightarrow> py_error + json" where
  "getitem_key (JObj d) k = (case map_of d k of None \<Rightarrow> Inl KeyError | Some v \<Rightarrow> Inr v)"
| "getitem_key (JArr xs) k = Inl TypeError"
| "getitem_key (JStr s) k = Inl TypeError"
| "getitem_key JNull k = Inl TypeError"
| "getitem_key (JBool b) k = Inl TypeError"
| "getitem_key (JNum n) k = Inl TypeError"

text \<open>\<^verbatim>\<open>x[0]\<close>. The keys of a parsed object are strings, so \<^verbatim>\<open>0\<close> is never one.\<close>

fun getitem_0 :: "json \<Rightarrow> py_error + json" where
  "getitem_0 (JArr xs) = (case xs of [] \<Rightarrow> Inl IndexError | x # _ \<Rightarrow> Inr x)"
| "getitem_0 (JStr s) = (case s of [] \<Rightarrow> Inl IndexError | c # _ \<Rightarrow> Inr (JStr [c]))"
| "getitem_0 (JObj d) = Inl KeyError"
| "getitem_0 JNull = Inl TypeError"
| "getitem_0 (JBool b) = Inl TypeError"
| "getitem_0 (JNum n) = Inl TypeError"

text \<open>\<^verbatim>\<open>x.get(key, default)\<close>: only a dictionary has the method.\<close>

fun py_get :: "json \<Rightarrow> string \<Rightarrow> json \<Rightarrow> py_error + json" where
  "py_get (JObj d) k dflt = Inr (case map_of d k of None \<Rightarrow> dflt | Some v \<Rightarrow> v)"
| "py_get (JArr xs) k dflt = Inl AttributeError"
| "py_get (JStr s) k dflt = Inl AttributeError"
| "py_get JNull k dflt = Inl AttributeError"
| "py_get (JBool b) k dflt = Inl AttributeError"
| "py_get (JNum n) k dflt = Inl AttributeError"

text \<open>
  The outcome of \<^verbatim>\<open>requests.post(...)\<close> followed by \<^verbatim>\<open>response.json()\<close>: one of the two
  raises (timeout, connection error, a body that is not JSON), or there is a status code
  and the parsed body. The service is a function of the system prompt and of the user's
  message, the two parts of the payload that vary.
\<close>

datatype http_outcome = Raises py_error | Response int json

type_synonym remote = "string \<Rightarrow> string \<Rightarrow> http_outcome"

subsection \<open>State, exceptions and the random generator\<close>

text \<open>
  A handler runs in a state made of the texts handed to \<^verbatim>\<open>dispatcher.utter_message\<close> so
  far and of the random generator, an injected sequence of draws with a cursor. A
  statement maps a state to a result, \<open>Inl\<close> an exception, and the state it leaves;
  \<open>py_try\<close> is \<^verbatim>\<open>try ... except Exception as e\<close>. Log records are not part of the state.
\<close>

record env =
  messages :: "json list"
  draws :: "nat \<Rightarrow> nat"
  cursor :: nat

type_synonym 'a py = "env \<Rightarrow> (py_error + 'a) \<times> env"

definition py_return :: "'a \<Rightarrow> 'a py" where
  "py_return x \<sigma> = (Inr x, \<sigma>)"

definition py_lift :: "py_error + 'a \<Rightarrow> 'a py" where
  "py_lift r \<sigma> = (r, \<sigma>)"

definition py_bind :: "'a py \<Rightarrow> ('a \<Rightarrow> 'b py) \<Rightarrow> 'b py" where
  "py_bind m f \<sigma> = (case m \<sigma> of (Inl e, \<sigma>') \<Rightarrow> (Inl e, \<sigma>') | (Inr x, \<sigma>') \<Rightarrow> f x \<sigma>')"

definition py_try :: "'a py \<Rightarrow> (py_error \<Rightarrow> 'a py) \<Rightarrow> 'a py" where
  "py_try m handler \<sigma> = (case m \<sigma> of (Inl e, \<sigma>') \<Rightarrow> handler e \<sigma>' | (Inr x, \<sigma>') \<Rightarrow> (Inr x, \<sigma>'))"

text \<open>
  \<^verbatim>\<open>random.random()\<close> is a 53-bit integer divided by \<open>2\<^sup>5\<^sup>3\<close>; \<^verbatim>\<open>random.choice(seq)\<close>
  indexes \<^verbatim>\<open>seq\<close> below its length and raises \<^verbatim>\<open>IndexError\<close> on an empty sequence.
\<close>

definition random_random :: "rat py" where
  "random_random \<sigma> =
     (Inr (of_nat (draws \<sigma> (cursor \<sigma>) mod 2 ^ 53) / 2 ^ 53), \<sigma>\<lparr>cursor := cursor \<sigma> + 1\<rparr>)"

definition random_choice :: "'a list \<Rightarrow> 'a py" where
  "random_choice xs \<sigma> =
     (if xs = [] then (Inl IndexError, \<sigma>)
      else (Inr (xs ! (draws \<sigma> (cursor \<sigma>) mod length xs)), \<sigma>\<lparr>cursor := cursor \<sigma> + 1\<rparr>))"

definition utter_message :: "json \<Rightarrow> unit py" where
  "utter_message m \<sigma> = (Inr (), \<sigma>\<lparr>messages := messages \<sigma> @ [m]\<rparr>)"

definition post :: "remote \<Rightarrow> string \<Rightarrow> string \<Rightarrow> (int \<times> json) py" where
  "post service system_prompt message =
     py_lift (case service system_prompt message of
                Raises e \<Rightarrow> Inl e
              | Response status_code data \<Rightarrow> Inr (status_code, data))"

text \<open>\<^verbatim>\<open>data["choices"][0]["message"]["content"]\<close>, each subscript in turn.\<close>

definition content_of :: "json \<Rightarrow> py_error + json" where
  "content_of data =
     (case getitem_key data ''choices'' of
        Inl e \<Rightarrow> Inl e
      | Inr choices \<Rightarrow>
          (case getitem_0 choices of
             Inl e \<Rightarrow> Inl e
           | Inr choice \<Rightarrow>
               (case getitem_key choice ''message'' of
                  Inl e \<Rightarrow> Inl e
                | Inr message \<Rightarrow> getitem_key message ''content'')))"

text \<open>
  The call succeeds when the status is 200, \<^verbatim>\<open>"choices" in data\<close> holds and the content
  can be read; every other outcome is a failure of the call.
\<close>

definition remote_succeeds :: "http_outcome \<Rightarrow> bool" where
  "remote_succeeds outcome =
     (case outcome of
        Raises e \<Rightarrow> False
      | Response status_code data \<Rightarrow>
          status_code = 200 \<and> py_contains ''choices'' data = Inr True \<and>
          \<not> isl (content_of data))"

text \<open>
  The two ways in which a call fails. It raises: the request or the decoding of the body
  raises, or, with status 200, the test \<^verbatim>\<open>"choices" in data\<close> raises or holds and the
  content cannot be read; control then passes to the \<^verbatim>\<open>except\<close> clause. Or the result is
  not a success: the status is not 200, or it is 200 and \<^verbatim>\<open>"choices" in data\<close> is false;
  control then passes to the \<^verbatim>\<open>else\<close> branch. \<open>body_is_object\<close>: the body is a JSON
  object, the shape that the service documents for its replies.
\<close>

definition call_raises :: "http_outcome \<Rightarrow> bool" where
  "call_raises outcome =
     (case outcome of
        Raises e \<Rightarrow> True
      | Response status_code data \<Rightarrow>
          status_code = 200 \<and>
          (isl (py_contains ''choices'' data) \<or>
           py_contains ''choices'' data = Inr True \<and> isl (content_of data)))"

definition call_not_ok :: "http_outcome \<Rightarrow> bool" where
  "call_not_ok outcome =
     (case outcome of
        Raises e \<Rightarrow> False
      | Response status_code data \<Rightarrow>
          status_code \<noteq> 200 \<or> py_contains ''choices'' data = Inr False)"

definition body_is_object :: "http_outcome \<Rightarrow> bool" where
  "body_is_object outcome =
     (case outcome of
        Raises e \<Rightarrow> False
      | Response status_code data \<Rightarrow> (case data of JObj d \<Rightarrow> True | _ \<Rightarrow> False))"

text \<open>The value that the next call of \<^verbatim>\<open>random.random()\<close> returns in a state.\<close>

definition next_random :: "env \<Rightarrow> rat" where
  "next_random \<sigma> = of_nat (draws \<sigma> (cursor \<sigma>) mod 2 ^ 53) / 2 ^ 53"

subsection \<open>The framework's side\<close>

text \<open>
  What a handler reads from the tracker: the text of the latest message and the confidence
  of its intent (\<open>None\<close> when the key is absent), and the slot \<^verbatim>\<open>detected_emotion\<close>
  (\<open>None\<close> when it was never set). What it returns: a list of events.
\<close>

record tracker =
  latest_text :: "string option"
  intent_confidence :: "rat option"
  detected_emotion_slot :: "string option"

datatype event = SlotSet string string

text \<open>\<^verbatim>\<open>tracker.latest_message.get("text", "")\<close>\<close>

definition latest_message_text :: "tracker \<Rightarrow> string" where
  "latest_message_text tracker = (case latest_text tracker of None \<Rightarrow> [] | Some s \<Rightarrow> s)"

subsection \<open>ActionProcessMessage\<close>

definition system_prompt :: "string \<Rightarrow> string" where
  "system_prompt emotion_context =
     ''You are an empathetic mental health assistant. '' @ emotion_context @
     ''Provide a supportive response that acknowledges the user's feelings '' @
     ''and offers gentle guidance. Keep your response concise (2-3 sentences) '' @
     ''and focus on emotional support rather than clinical advice.''"

text \<open>
  The statements of \<^verbatim>\<open>_call_fallback_api\<close> under \<^verbatim>\<open>try\<close>. The warning is logged after the
  fallback response was sent, and formatting it calls \<^verbatim>\<open>data.get\<close>.
\<close>

definition remote_attempt :: "remote \<Rightarrow> string \<Rightarrow> string \<Rightarrow> string \<Rightarrow> unit py" where
  "remote_attempt service emotion_context message emo =
     py_bind (post service (system_prompt emotion_context) message) (\<lambda>(status_code, data).
     py_bind (if status_code = 200 then py_lift (py_contains ''choices'' data)
              else py_return False) (\<lambda>success.
       if success then
         py_bind (py_lift (content_of data)) (\<lambda>ai_response. utter_message ai_response)
       else
         py_bind (py_lift (subscript EMPATHETIC_RESPONSES emo)) (\<lambda>responses.
         py_bind (random_choice responses) (\<lambda>fallback_response.
         py_bind (utter_message (JStr fallback_response)) (\<lambda>_.
         py_bind (py_lift (py_get data ''error'' (JStr ''Unknown error''))) (\<lambda>_.
         py_return ()))))))"

text \<open>The \<^verbatim>\<open>except Exception\<close> clause of \<^verbatim>\<open>_call_fallback_api\<close>.\<close>

definition remote_failed :: "string \<Rightarrow> py_error \<Rightarrow> unit py" where
  "remote_failed emo e =
     py_bind (py_lift (subscript EMPATHETIC_RESPONSES emo)) (\<lambda>responses.
     py_bind (random_choice responses) (\<lambda>fallback_response.
     utter_message (JStr fallback_response)))"

text \<open>The branch of \<^verbatim>\<open>_call_fallback_api\<close> that uses a predefined response.\<close>

definition predefined_response :: "string \<Rightarrow> event list py" where
  "predefined_response emo =
     py_bind (py_lift (subscript EMPATHETIC_RESPONSES emo)) (\<lambda>responses.
     py_bind (random_choice responses) (\<lambda>response.
     py_bind (if emo \<in> set [''sadness'', ''anger'', ''fear'']
              then py_bind random_random (\<lambda>v.
                     if v < d0_5 then
                       py_bind (py_lift (subscript THERAPY_TECHNIQUES emo)) (\<lambda>techniques.
                       py_bind (random_choice techniques) (\<lambda>technique.
                       py_return (response @ ''\<newline>\<newline>Here's a technique that might help: ''
                                    @ technique)))
                     else py_return response)
              else py_return response) (\<lambda>response.
     py_bind (utter_message (JStr response)) (\<lambda>_.
     py_return [SlotSet ''detected_emotion'' emo]))))"

definition call_fallback_api :: "remote \<Rightarrow> string \<Rightarrow> string \<Rightarrow> event list py" where
  "call_fallback_api service message emo =
     (let emotion_context = ''The user seems to be feeling '' @ emo @ ''. '' in
      py_bind random_random (\<lambda>u.
        if u < d0_7 \<and> has_key emo EMPATHETIC_RESPONSES then predefined_response emo
        else
          py_bind (py_try (remote_attempt service emotion_context message emo)
                          (remote_failed emo)) (\<lambda>_.
          py_return [SlotSet ''detected_emotion'' emo])))"

text \<open>
  \<^verbatim>\<open>ActionProcessMessage.run\<close>. The detector is the module's singleton; its model is the
  first argument. The call of \<^verbatim>\<open>get_response_for_emotion\<close> is a dictionary \<^verbatim>\<open>get\<close> with
  a default whose value is not used.
\<close>

definition process_message_run ::
  "flair_model option \<Rightarrow> remote \<Rightarrow> tracker \<Rightarrow> event list py" where
  "process_message_run emotion_model service tracker =
     (let latest_message = latest_message_text tracker;
          intent_conf = (case intent_confidence tracker of None \<Rightarrow> 0 | Some c \<Rightarrow> c) in
      py_bind (py_lift (detect_emotion emotion_model latest_message)) (\<lambda>emotion_data.
        if intent_conf < d0_3
        then call_fallback_api service latest_message (emotion emotion_data)
        else py_return [SlotSet ''detected_emotion'' (emotion emotion_data)]))"

subsection \<open>ActionFallbackAPI\<close>

text \<open>The two fixed texts of \<^verbatim>\<open>ActionFallbackAPI.run\<close>.\<close>

definition not_sure_message :: string where
  "not_sure_message =
     ''I'm not sure how to respond to that. Could you rephrase or ask something else?''"

definition trouble_message :: string where
  "trouble_message =
     ''I'm having trouble processing your request right now. Let's try something else.''"

definition fallback_attempt :: "remote \<Rightarrow> string \<Rightarrow> unit py" where
  "fallback_attempt service message =
     py_bind (post service (system_prompt []) message) (\<lambda>(status_code, data).
     py_bind (if status_code = 200 then py_lift (py_contains ''choices'' data)
              else py_return False) (\<lambda>success.
       if success then
         py_bind (py_lift (content_of data)) (\<lambda>ai_response. utter_message ai_response)
       else
         py_bind (utter_message (JStr not_sure_message)) (\<lambda>_.
         py_bind (py_lift (py_get data ''error'' (JStr ''Unknown error''))) (\<lambda>_.
         py_return ()))))"

definition fallback_failed :: "py_error \<Rightarrow> unit py" where
  "fallback_failed e =
     utter_message (JStr trouble_message)"

definition fallback_api_run ::
  "flair_model option \<Rightarrow> remote \<Rightarrow> tracker \<Rightarrow> event list py" where
  "fallback_api_run emotion_model service tracker =
     (let latest_message = latest_message_text tracker in
      py_bind (py_lift (detect_emotion emotion_model latest_message)) (\<lambda>emotion_data.
      py_bind random_random (\<lambda>u.
        if u < d0_7 \<and> has_key (emotion emotion_data) EMPATHETIC_RESPONSES then
          py_bind (py_lift (subscript EMPATHETIC_RESPONSES (emotion emotion_data)))
            (\<lambda>responses.
          py_bind (random_choice responses) (\<lambda>response.
          py_bind (utter_message (JStr response)) (\<lambda>_.
          py_return [SlotSet ''detected_emotion'' (emotion emotion_data)])))
        else
          py_bind (py_try (fallback_attempt service latest_message) fallback_failed) (\<lambda>_.
          py_return [SlotSet ''detected_emotion'' (emotion emotion_data)]))))"

subsection \<open>ActionSuggestCopingStrategy\<close>

definition emotion_mapping :: "(string \<times> string) list" where
  "emotion_mapping =
     [(''sad'', ''sadness''), (''angry'', ''anger''), (''anxious'', ''fear''),
      (''afraid'', ''fear''), (''happy'', ''joy''), (''excited'', ''joy'')]"

text \<open>
  \<^verbatim>\<open>tracker.get_slot("detected_emotion") or "neutral"\<close>: an unset slot and the empty string
  both give \<^verbatim>\<open>neutral\<close>. Then the synonyms, then the default for a label without
  techniques.
\<close>

definition mapped_emotion :: "string option \<Rightarrow> string" where
  "mapped_emotion slot =
     (let current_emotion = (case slot of None \<Rightarrow> ''neutral''
                             | Some s \<Rightarrow> if s = [] then ''neutral'' else s);
          mapped = (case map_of emotion_mapping current_emotion of
                      None \<Rightarrow> current_emotion
                    | Some m \<Rightarrow> m)
      in if \<not> has_key mapped THERAPY_TECHNIQUES then ''neutral'' else mapped)"

definition intro :: "string \<Rightarrow> string" where
  "intro mapped =
     (if mapped = ''sadness'' then ''When you're feeling down, it can help to:''
      else if mapped = ''anger''
        then ''To manage feelings of frustration or anger, you might try:''
      else if mapped = ''fear''
        then ''When anxiety or fear arises, this technique can be helpful:''
      else if mapped = ''joy'' then ''To build on these positive feelings, consider:''
      else ''Here's a helpful technique you might want to try:'')"

definition suggest_coping_strategy_run :: "tracker \<Rightarrow> event list py" where
  "suggest_coping_strategy_run tracker =
     (let mapped = mapped_emotion (detected_emotion_slot tracker) in
      py_bind (py_lift (subscript THERAPY_TECHNIQUES mapped)) (\<lambda>techniques.
      py_bind (random_choice techniques) (\<lambda>strategy.
      py_bind (utter_message (JStr (intro mapped @ ''\<newline>\<newline>'' @ strategy))) (\<lambda>_.
      py_return []))))"

subsection \<open>What a failed remote call leaves behind\<close>

text \<open>
  \<open>canned rs new\<close>: the texts \<open>new\<close> are at least one, and each is a string of the list
  \<open>rs\<close>. \<open>generic new\<close>: the texts \<open>new\<close> are the fixed texts of
  \<^verbatim>\<open>ActionFallbackAPI.run\<close>, the first, the second, or the first then the second.
\<close>

definition canned :: "string list \<Rightarrow> json list \<Rightarrow> bool" where
  "canned rs new \<longleftrightarrow> new \<noteq> [] \<and> (\<forall>m\<in>set new. \<exists>s\<in>set rs. m = JStr s)"

definition generic :: "json list \<Rightarrow> bool" where
  "generic new \<longleftrightarrow>
     new = [JStr not_sure_message] \<or> new = [JStr not_sure_message, JStr trouble_message] \<or>
     new = [JStr trouble_message]"

section \<open>Properties of the emotion detector\<close>

lemma strip_whitespace: "\<forall>c\<in>set text. is_space c \<Longrightarrow> strip text = []"
proof -
  assume "\<forall>c\<in>set text. is_space c"
  then have d: "dropWhile is_space text = []"
    by (simp add: dropWhile_eq_Nil_conv)
  have "strip text = rev (dropWhile is_space (rev []))"
    by (simp only: strip_def d)
  then show ?thesis
    by simp
qed

text \<open>
  Claim C4. For every text that is empty or consists of whitespace only, and whatever
  model is loaded, \<^verbatim>\<open>detect_emotion\<close> returns exactly the result with emotion
  \<^verbatim>\<open>neutral\<close>, confidence \<^verbatim>\<open>0.0\<close> and method \<^verbatim>\<open>default\<close>: neither the model nor the
  keywords take part.
\<close>

theorem detect_emotion_blank:
  assumes "text = [] \<or> (\<forall>c\<in>set text. is_space c)"
  shows "detect_emotion emotion_model text =
           Inr \<lparr>emotion = ''neutral'', confidence = 0, method = ''default'',
                all_emotions = None\<rparr>"
  using assms by (auto simp add: detect_emotion_def default_result_def strip_whitespace)


theorem detect_emotion_blank_witness:
  "detect_emotion (Some (\<lambda>t. Inr [(''Joy'', 1)])) [CHR '' '', CHR 0x09, CHR 0x0A] =
     Inr \<lparr>emotion = ''neutral'', confidence = 0, method = ''default'', all_emotions = None\<rparr>"
proof -
  have h: "\<forall>c\<in>set [CHR '' '', CHR 0x09, CHR 0x0A]. is_space c"
    by (simp add: is_space_def)
  show ?thesis
    using h detect_emotion_blank [of "[CHR '' '', CHR 0x09, CHR 0x0A]" "Some (\<lambda>t. Inr [(''Joy'', 1)])"]
    by blast
qed

subsection \<open>The keyword fallback\<close>

lemma count_keywords_filter:
  "count_keywords ks text score = score + length (filter (\<lambda>k. sublist k text) ks)"
  by (induction ks arbitrary: score) auto

lemma highest_score_label:
  "snd (highest_score xs (m, d)) \<in> insert d (fst ` set xs)"
proof (induction xs arbitrary: m d)
  case Nil
  then show ?case by simp
next
  case (Cons x xs)
  obtain e s where x: "x = (e, s)" by (cases x)
  show ?case
  proof (cases "m < s")
    case True
    then show ?thesis using Cons.IH [of s e] x by auto
  next
    case False
    then show ?thesis using Cons.IH [of m d] x by auto
  qed
qed

lemma highest_score_none:
  "\<forall>j<length xs. snd (xs ! j) \<le> m \<Longrightarrow> highest_score xs (m, d) = (m, d)"
proof (induction xs arbitrary: m d)
  case Nil
  then show ?case by simp
next
  case (Cons x xs)
  obtain e s where x: "x = (e, s)" by (cases x)
  from Cons.prems have "snd ((x # xs) ! 0) \<le> m" by blast
  then have s: "s \<le> m" using x by simp
  have "\<forall>j<length xs. snd (xs ! j) \<le> m"
  proof (intro allI impI)
    fix j assume "j < length xs"
    then have "snd ((x # xs) ! Suc j) \<le> m" using Cons.prems by (metis Suc_less_eq length_Cons)
    then show "snd (xs ! j) \<le> m" by simp
  qed
  then have "highest_score xs (m, d) = (m, d)" by (rule Cons.IH)
  then show ?case using s x by simp
qed

lemma first_max_0:
  "\<forall>j<length xs. snd (xs ! j) \<le> s \<Longrightarrow> first_max ((e, s) # xs) 0"
  by (auto simp: first_max_def nth_Cons')

lemma first_max_Suc:
  "first_max xs i \<Longrightarrow> s < snd (xs ! i) \<Longrightarrow> first_max ((e, s) # xs) (Suc i)"
  by (auto simp: first_max_def nth_Cons' less_Suc_eq_0_disj)

lemma highest_score_some:
  "\<not> (\<forall>j<length xs. snd (xs ! j) \<le> m) \<Longrightarrow>
     \<exists>i. first_max xs i \<and> m < snd (xs ! i) \<and> highest_score xs (m, d) = (snd (xs ! i), fst (xs ! i))"
proof (induction xs arbitrary: m d)
  case Nil
  then show ?case by simp
next
  case (Cons x xs)
  obtain e s where x: "x = (e, s)" by (cases x)
  show ?case
  proof (cases "m < s")
    case ms: True
    show ?thesis
    proof (cases "\<forall>j<length xs. snd (xs ! j) \<le> s")
      case True
      then have "highest_score xs (s, e) = (s, e)" by (rule highest_score_none)
      then have "first_max (x # xs) 0 \<and> m < snd ((x # xs) ! 0) \<and>
          highest_score (x # xs) (m, d) = (snd ((x # xs) ! 0), fst ((x # xs) ! 0))"
        using ms x first_max_0 [OF True, of e] by simp
      then show ?thesis by blast
    next
      case False
      from Cons.IH [OF False, of e] obtain i where i: "first_max xs i" "s < snd (xs ! i)"
        "highest_score xs (s, e) = (snd (xs ! i), fst (xs ! i))" by blast
      have "first_max (x # xs) (Suc i) \<and> m < snd ((x # xs) ! Suc i) \<and>
          highest_score (x # xs) (m, d) = (snd ((x # xs) ! Suc i), fst ((x # xs) ! Suc i))"
        using i ms x first_max_Suc [OF i(1) i(2), of e] by simp
      then show ?thesis by blast
    qed
  next
    case ms: False
    have "\<not> (\<forall>j<length xs. snd (xs ! j) \<le> m)"
    proof
      assume a: "\<forall>j<length xs. snd (xs ! j) \<le> m"
      have "\<forall>j<length (x # xs). snd ((x # xs) ! j) \<le> m"
        using a ms x by (auto simp: nth_Cons')
      with Cons.prems show False by blast
    qed
    from Cons.IH [OF this, of d] obtain i where i: "first_max xs i" "m < snd (xs ! i)"
        "highest_score xs (m, d) = (snd (xs ! i), fst (xs ! i))" by blast
    have "s < snd (xs ! i)" using ms i(2) by simp
    then have "first_max (x # xs) (Suc i) \<and> m < snd ((x # xs) ! Suc i) \<and>
          highest_score (x # xs) (m, d) = (snd ((x # xs) ! Suc i), fst ((x # xs) ! Suc i))"
      using i ms x first_max_Suc [OF i(1), of s e] by simp
    then show ?thesis by blast
  qed
qed


lemma categories_eq: "categories = [''joy'', ''sadness'', ''anger'', ''fear'', ''neutral'']"
  by (simp add: categories_def EMOTION_KEYWORDS_def)

lemma emotion_scores_eq:
  "emotion_scores text = map (\<lambda>c. (c, keyword_count c text)) categories"
  by (simp add: emotion_scores_def categories_def keyword_count_def EMOTION_KEYWORDS_def
      count_keywords_filter)

lemma detect_with_keywords_cases:
  fixes msg :: string
  defines "n \<equiv> \<lambda>c. keyword_count c (lower msg)"
  shows "((\<forall>c\<in>set categories. n c = 0) \<and>
          detect_with_keywords msg = (''neutral'', keyword_confidence 0 0)) \<or>
         (\<exists>i<length categories. 0 < n (categories ! i) \<and>
            (\<forall>j<length categories. n (categories ! j) \<le> n (categories ! i)) \<and>
            (\<forall>j<i. n (categories ! j) < n (categories ! i)) \<and>
            detect_with_keywords msg =
              (categories ! i,
               keyword_confidence (n (categories ! i)) (sum_list (map n categories))))"
proof -
  let ?xs = "emotion_scores (lower msg)"
  have xs: "?xs = map (\<lambda>c. (c, n c)) categories"
    by (simp add: emotion_scores_eq n_def)
  have len: "length ?xs = length categories"
    by (simp add: xs)
  have nth: "\<And>j. j < length categories \<Longrightarrow> ?xs ! j = (categories ! j, n (categories ! j))"
    by (simp add: xs)
  have total: "sum_list (map snd ?xs) = sum_list (map n categories)"
    by (simp add: xs comp_def)
  have dwk: "detect_with_keywords msg =
      (snd (highest_score ?xs (0, ''neutral'')),
       keyword_confidence (fst (highest_score ?xs (0, ''neutral''))) (sum_list (map n categories)))"
    by (simp add: detect_with_keywords_def Let_def total split: prod.splits)
  show ?thesis
  proof (cases "\<forall>j<length ?xs. snd (?xs ! j) \<le> 0")
    case True
    then have hs: "highest_score ?xs (0, ''neutral'') = (0, ''neutral'')"
      by (rule highest_score_none)
    have zero: "\<forall>c\<in>set categories. n c = 0"
    proof
      fix c assume "c \<in> set categories"
      then obtain j where j: "j < length categories" "categories ! j = c"
        by (auto simp: in_set_conv_nth)
      with True have "snd (?xs ! j) \<le> 0" by (simp add: len)
      with j show "n c = 0" by (simp add: nth)
    qed
    then have "sum_list (map n categories) = 0"
      by simp
    with hs dwk zero show ?thesis by simp
  next
    case False
    from highest_score_some [OF False, of "''neutral''"]
    obtain i where i: "first_max ?xs i" "0 < snd (?xs ! i)"
      "highest_score ?xs (0, ''neutral'') = (snd (?xs ! i), fst (?xs ! i))" by blast
    from i(1) have il: "i < length categories"
      by (simp add: first_max_def len)
    have a: "0 < n (categories ! i)"
      using i(2) il by (simp add: nth)
    have b: "\<forall>j<length categories. n (categories ! j) \<le> n (categories ! i)"
      using i(1) il by (simp add: first_max_def len nth)
    have c: "\<forall>j<i. n (categories ! j) < n (categories ! i)"
      using i(1) il by (simp add: first_max_def len nth)
    have "detect_with_keywords msg =
              (categories ! i,
               keyword_confidence (n (categories ! i)) (sum_list (map n categories)))"
      using dwk i(3) il by (simp add: nth)
    with il a b c show ?thesis by blast
  qed
qed


lemma winner_unique:
  fixes msg :: string
  assumes c: "c \<in> set categories" "0 < keyword_count c (lower msg)"
    and others: "\<forall>c'\<in>set categories. c' \<noteq> c \<longrightarrow> keyword_count c' (lower msg) = 0"
  shows "detect_with_keywords msg =
           (c, keyword_confidence (keyword_count c (lower msg))
                 (sum_list (map (\<lambda>c. keyword_count c (lower msg)) categories)))"
proof -
  from detect_with_keywords_cases [of msg] c
  obtain i where i: "i < length categories" "0 < keyword_count (categories ! i) (lower msg)"
    "detect_with_keywords msg =
       (categories ! i, keyword_confidence (keyword_count (categories ! i) (lower msg))
          (sum_list (map (\<lambda>c. keyword_count c (lower msg)) categories)))"
    by fastforce
  have "categories ! i \<in> set categories"
    using i(1) by simp
  with others i(2) have "categories ! i = c"
    by fastforce
  with i(3) show ?thesis by simp
qed

text \<open>
  Claim C5. The keyword fallback lower-cases the text and counts, for each category, the
  keywords that occur in it as substrings. The categories are iterated in the order joy,
  sadness, anger, fear, neutral. When every count is zero the result is \<^verbatim>\<open>neutral\<close>.
  Otherwise the result is a category whose count is positive and is the highest of all,
  and every category before it in the iteration order has a strictly lower count: among
  the categories that tie at the highest count the first wins. In particular a text with
  exactly one keyword of one category and none of the others is given that category.
\<close>

theorem keyword_fallback_category:
  "categories = [''joy'', ''sadness'', ''anger'', ''fear'', ''neutral''] \<and>
   ((\<forall>c\<in>set categories. keyword_count c (lower msg) = 0) \<longrightarrow>
      fst (detect_with_keywords msg) = ''neutral'') \<and>
   ((\<exists>c\<in>set categories. 0 < keyword_count c (lower msg)) \<longrightarrow>
      (\<exists>i<length categories.
          fst (detect_with_keywords msg) = categories ! i \<and>
          0 < keyword_count (categories ! i) (lower msg) \<and>
          (\<forall>j<length categories.
              keyword_count (categories ! j) (lower msg) \<le> keyword_count (categories ! i) (lower msg)) \<and>
          (\<forall>j<i. keyword_count (categories ! j) (lower msg) < keyword_count (categories ! i) (lower msg)))) \<and>
   (\<forall>c\<in>set categories.
       keyword_count c (lower msg) = 1 \<and>
       (\<forall>c'\<in>set categories. c' \<noteq> c \<longrightarrow> keyword_count c' (lower msg) = 0) \<longrightarrow>
       fst (detect_with_keywords msg) = c)"
proof (intro conjI impI ballI)
  show "categories = [''joy'', ''sadness'', ''anger'', ''fear'', ''neutral'']"
    by (rule categories_eq)
next
  assume "\<forall>c\<in>set categories. keyword_count c (lower msg) = 0"
  with detect_with_keywords_cases [of msg] show "fst (detect_with_keywords msg) = ''neutral''"
    by fastforce
next
  assume "\<exists>c\<in>set categories. 0 < keyword_count c (lower msg)"
  with detect_with_keywords_cases [of msg]
  obtain i where "i < length categories" "0 < keyword_count (categories ! i) (lower msg)"
    "\<forall>j<length categories.
        keyword_count (categories ! j) (lower msg) \<le> keyword_count (categories ! i) (lower msg)"
    "\<forall>j<i. keyword_count (categories ! j) (lower msg) < keyword_count (categories ! i) (lower msg)"
    "detect_with_keywords msg =
       (categories ! i, keyword_confidence (keyword_count (categories ! i) (lower msg))
          (sum_list (map (\<lambda>c. keyword_count c (lower msg)) categories)))"
    by fastforce
  then show "\<exists>i<length categories.
          fst (detect_with_keywords msg) = categories ! i \<and>
          0 < keyword_count (categories ! i) (lower msg) \<and>
          (\<forall>j<length categories.
              keyword_count (categories ! j) (lower msg) \<le> keyword_count (categories ! i) (lower msg)) \<and>
          (\<forall>j<i. keyword_count (categories ! j) (lower msg) < keyword_count (categories ! i) (lower msg))"
    by (intro exI [of _ i]) simp
next
  fix c
  assume "c \<in> set categories"
    and "keyword_count c (lower msg) = 1 \<and>
       (\<forall>c'\<in>set categories. c' \<noteq> c \<longrightarrow> keyword_count c' (lower msg) = 0)"
  then show "fst (detect_with_keywords msg) = c"
    using winner_unique [of c msg] by simp
qed


lemma counts_scared:
  "map (\<lambda>c. keyword_count c (lower ''I am so scared and terrified of my exam tomorrow'')) categories = [0, 0, 0, 2, 0]"
  by code_simp

lemma counts_unhappy:
  "map (\<lambda>c. keyword_count c (lower ''So UNHAPPY'')) categories = [1, 1, 0, 0, 0]"
  by code_simp

lemma counts_hello:
  "map (\<lambda>c. keyword_count c (lower ''Hello there'')) categories = [0, 0, 0, 0, 0]"
  by code_simp

lemma counts_31:
  "map (\<lambda>c. keyword_count c (lower ''I am sad, depressed and miserable but glad you are here'')) categories = [1, 3, 0, 0, 0]"
  by code_simp

lemma counts_angry:
  "map (\<lambda>c. keyword_count c (lower ''This makes me ANGRY'')) categories = [0, 0, 1, 0, 0]"
  by code_simp

theorem keyword_fallback_category_witness:
  "fst (detect_with_keywords ''Hello there'') = ''neutral'' \<and>
   fst (detect_with_keywords ''So UNHAPPY'') = ''joy'' \<and>
   fst (detect_with_keywords ''This makes me ANGRY'') = ''anger''"
proof -
  have a: "fst (detect_with_keywords ''Hello there'') = ''neutral''"
    using keyword_fallback_category [of "''Hello there''"] counts_hello
    by (simp add: categories_eq)
  have b: "fst (detect_with_keywords ''This makes me ANGRY'') = ''anger''"
    using keyword_fallback_category [of "''This makes me ANGRY''"] counts_angry
    by (simp add: categories_eq)
  let ?L = "lower ''So UNHAPPY''"
  have n: "keyword_count ''joy'' ?L = 1" "keyword_count ''sadness'' ?L = 1"
    "keyword_count ''anger'' ?L = 0" "keyword_count ''fear'' ?L = 0"
    "keyword_count ''neutral'' ?L = 0"
    using counts_unhappy by (simp_all add: categories_eq)
  have "\<exists>c\<in>set categories. 0 < keyword_count c ?L"
    using n by (simp add: categories_eq)
  with keyword_fallback_category [of "''So UNHAPPY''"]
  obtain i where i: "i < length categories"
    "fst (detect_with_keywords ''So UNHAPPY'') = categories ! i"
    "0 < keyword_count (categories ! i) ?L"
    "\<forall>j<i. keyword_count (categories ! j) ?L < keyword_count (categories ! i) ?L"
    by blast
  from i(1) consider "i = 0" | "i = 1" | "i = 2" | "i = 3" | "i = 4"
    by (simp add: categories_eq) linarith
  then have "i = 0"
  proof cases
    case 2
    with i(4) have "keyword_count (categories ! 0) ?L < keyword_count (categories ! 1) ?L"
      by blast
    then show ?thesis using n by (simp add: categories_eq)
  qed (use i(3) n in \<open>simp_all add: categories_eq\<close>)
  with i(2) have c: "fst (detect_with_keywords ''So UNHAPPY'') = ''joy''"
    by (simp add: categories_eq)
  from a c b show ?thesis by blast
qed

lemma sum_list_one:
  fixes n :: "'a \<Rightarrow> nat"
  assumes "distinct xs" "a \<in> set xs" "\<forall>c\<in>set xs. c \<noteq> a \<longrightarrow> n c = 0"
  shows "sum_list (map n xs) = n a"
proof -
  have "sum_list (map n xs) = (\<Sum>x\<in>set xs. n x)"
    using assms(1) by (rule sum_list_distinct_conv_sum_set)
  also have "\<dots> = n a + (\<Sum>x\<in>set xs - {a}. n x)"
    using assms(2) by (simp add: sum.remove)
  also have "(\<Sum>x\<in>set xs - {a}. n x) = 0"
    using assms(3) by simp
  finally show ?thesis by simp
qed

lemma sum_list_two:
  fixes n :: "'a \<Rightarrow> nat"
  assumes "distinct xs" "a \<in> set xs" "b \<in> set xs" "a \<noteq> b"
    "\<forall>c\<in>set xs. c \<noteq> a \<and> c \<noteq> b \<longrightarrow> n c = 0"
  shows "sum_list (map n xs) = n a + n b"
proof -
  have "sum_list (map n xs) = (\<Sum>x\<in>set xs. n x)"
    using assms(1) by (rule sum_list_distinct_conv_sum_set)
  also have "\<dots> = n a + (\<Sum>x\<in>set xs - {a}. n x)"
    using assms(2) by (simp add: sum.remove)
  also have "(\<Sum>x\<in>set xs - {a}. n x) = n b + (\<Sum>x\<in>set xs - {a} - {b}. n x)"
    using assms(3,4) by (simp add: sum.remove)
  also have "(\<Sum>x\<in>set xs - {a} - {b}. n x) = 0"
    using assms(5) by simp
  finally show ?thesis by simp
qed

lemma distinct_categories: "distinct categories"
  by (simp add: categories_eq)

lemma keyword_confidence_3_4: "keyword_confidence 3 4 = double (8 / 10)"
  by code_simp

lemma keyword_confidence_2_2: "keyword_confidence 2 2 = double (9 / 10)"
  by code_simp

lemma d0_5_half: "d0_5 = 1 / 2"
  by code_simp

text \<open>
  The two doubles of the examples, as the fractions that \<^verbatim>\<open>(0.8).as_integer_ratio()\<close> and
  \<^verbatim>\<open>(0.9).as_integer_ratio()\<close> give.
\<close>

lemma double_0_8: "double (8 / 10) = 3602879701896397 / 4503599627370496"
  by code_simp

lemma double_0_9: "double (9 / 10) = 8106479329266893 / 9007199254740992"
  by code_simp

lemma keyword_confidence_zero: "keyword_confidence m 0 = d0_5"
  by (simp add: keyword_confidence_def)

lemma detect_with_keywords_confidence:
  fixes msg :: string
  shows "snd (detect_with_keywords msg) =
     keyword_confidence (keyword_count (fst (detect_with_keywords msg)) (lower msg))
       (sum_list (map (\<lambda>c. keyword_count c (lower msg)) categories))"
proof -
  from detect_with_keywords_cases [of msg] show ?thesis
  proof (elim disjE conjE exE)
    assume z: "\<forall>c\<in>set categories. keyword_count c (lower msg) = 0"
      and d: "detect_with_keywords msg = (''neutral'', keyword_confidence 0 0)"
    have "''neutral'' \<in> set categories" by (simp add: categories_eq)
    with z have k0: "keyword_count ''neutral'' (lower msg) = 0" by blast
    from z have t0: "sum_list (map (\<lambda>c. keyword_count c (lower msg)) categories) = 0"
      by simp
    show ?thesis
      by (simp only: d t0 k0 fst_conv snd_conv)
  next
    fix i
    assume "detect_with_keywords msg =
       (categories ! i, keyword_confidence (keyword_count (categories ! i) (lower msg))
          (sum_list (map (\<lambda>c. keyword_count c (lower msg)) categories)))"
    then show ?thesis by simp
  qed
qed

text \<open>
  Claim C6. With the counts of the lower-cased text, the confidence of the keyword
  fallback is \<^verbatim>\<open>min(0.9, 0.5 + (winning_count / total_matches) * 0.4)\<close>, evaluated in
  binary64 arithmetic as Python does, when the total is positive, and \<^verbatim>\<open>0.5\<close> when the
  total is zero. When one category counts 3, another 1 and the others 0, the first one
  wins and the confidence is the double \<^verbatim>\<open>0.8\<close>; when one category counts 2 and the
  others 0, it wins and the confidence is the double \<^verbatim>\<open>0.9\<close>.
\<close>

theorem keyword_fallback_confidence:
  "(let n = (\<lambda>c. keyword_count c (lower msg));
        winning_count = n (fst (detect_with_keywords msg));
        total_matches = sum_list (map n categories);
        conf = snd (detect_with_keywords msg)
    in (0 < total_matches \<longrightarrow>
          conf = min d0_9 (float_add d0_5
                   (float_mul (int_truediv winning_count total_matches) d0_4))) \<and>
       (total_matches = 0 \<longrightarrow> conf = d0_5) \<and>
       (\<forall>a\<in>set categories. \<forall>b\<in>set categories.
           a \<noteq> b \<and> n a = 3 \<and> n b = 1 \<and>
           (\<forall>c\<in>set categories. c \<noteq> a \<and> c \<noteq> b \<longrightarrow> n c = 0) \<longrightarrow>
           fst (detect_with_keywords msg) = a \<and> conf = double (8 / 10)) \<and>
       (\<forall>a\<in>set categories.
           n a = 2 \<and> (\<forall>c\<in>set categories. c \<noteq> a \<longrightarrow> n c = 0) \<longrightarrow>
           fst (detect_with_keywords msg) = a \<and> conf = double (9 / 10)))"
proof -
  let ?n = "\<lambda>c. keyword_count c (lower msg)"
  let ?total = "sum_list (map ?n categories)"
  let ?w = "fst (detect_with_keywords msg)"
  let ?conf = "snd (detect_with_keywords msg)"
  note conf = detect_with_keywords_confidence [of msg]
  have general: "0 < ?total \<longrightarrow>
      ?conf = min d0_9 (float_add d0_5 (float_mul (int_truediv (?n ?w) ?total) d0_4))"
    using conf by (simp add: keyword_confidence_def)
  have zero: "?total = 0 \<longrightarrow> ?conf = d0_5"
  proof
    assume t0: "?total = 0"
    show "?conf = d0_5"
      by (simp only: conf t0 keyword_confidence_zero)
  qed
  have three_one: "?w = a \<and> ?conf = double (8 / 10)"
    if "a \<in> set categories" "b \<in> set categories"
      "a \<noteq> b \<and> ?n a = 3 \<and> ?n b = 1 \<and> (\<forall>c\<in>set categories. c \<noteq> a \<and> c \<noteq> b \<longrightarrow> ?n c = 0)"
    for a b
  proof -
    have total: "?total = 4"
      using sum_list_two [OF distinct_categories that(1,2), of ?n] that(3) by simp
    from detect_with_keywords_cases [of msg] that
    obtain i where i: "i < length categories"
      "\<forall>j<length categories. ?n (categories ! j) \<le> ?n (categories ! i)"
      "detect_with_keywords msg = (categories ! i, keyword_confidence (?n (categories ! i)) ?total)"
      by fastforce
    from that(1) obtain j where j: "j < length categories" "categories ! j = a"
      by (auto simp: in_set_conv_nth)
    with i(2) that(3) have ge: "3 \<le> ?n (categories ! i)" by fastforce
    have "categories ! i \<in> set categories" using i(1) by simp
    with ge that(3) have "categories ! i = a" by fastforce
    with i(3) total that(3) show ?thesis
      by (simp add: keyword_confidence_3_4)
  qed
  have two: "?w = a \<and> ?conf = double (9 / 10)"
    if "a \<in> set categories" "?n a = 2 \<and> (\<forall>c\<in>set categories. c \<noteq> a \<longrightarrow> ?n c = 0)" for a
  proof -
    have total: "?total = 2"
      using sum_list_one [OF distinct_categories that(1), of ?n] that(2) by simp
    have "detect_with_keywords msg = (a, keyword_confidence (?n a) ?total)"
      using winner_unique [of a msg] that by simp
    with total that(2) show ?thesis
      by (simp add: keyword_confidence_2_2)
  qed
  show ?thesis
    unfolding Let_def using general zero three_one two by blast
qed

theorem keyword_fallback_confidence_witness:
  "detect_with_keywords ''I am so scared and terrified of my exam tomorrow'' =
     (''fear'', double (9 / 10)) \<and>
   detect_with_keywords ''I am sad, depressed and miserable but glad you are here'' =
     (''sadness'', double (8 / 10)) \<and>
   snd (detect_with_keywords ''Hello there'') = 1 / 2"
proof -
  let ?A = "''I am so scared and terrified of my exam tomorrow''"
  let ?B = "''I am sad, depressed and miserable but glad you are here''"
  have a: "keyword_count ''joy'' (lower ?A) = 0" "keyword_count ''sadness'' (lower ?A) = 0"
    "keyword_count ''anger'' (lower ?A) = 0" "keyword_count ''fear'' (lower ?A) = 2"
    "keyword_count ''neutral'' (lower ?A) = 0"
    using counts_scared by (simp_all add: categories_eq)
  have b: "keyword_count ''joy'' (lower ?B) = 1" "keyword_count ''sadness'' (lower ?B) = 3"
    "keyword_count ''anger'' (lower ?B) = 0" "keyword_count ''fear'' (lower ?B) = 0"
    "keyword_count ''neutral'' (lower ?B) = 0"
    using counts_31 by (simp_all add: categories_eq)
  have h: "keyword_count ''joy'' (lower ''Hello there'') = 0"
    "keyword_count ''sadness'' (lower ''Hello there'') = 0"
    "keyword_count ''anger'' (lower ''Hello there'') = 0"
    "keyword_count ''fear'' (lower ''Hello there'') = 0"
    "keyword_count ''neutral'' (lower ''Hello there'') = 0"
    using counts_hello by (simp_all add: categories_eq)
  have 1: "detect_with_keywords ?A = (''fear'', double (9 / 10))"
  proof -
    have mem: "''fear'' \<in> set categories"
      by (simp add: categories_eq)
    have hyp: "keyword_count ''fear'' (lower ?A) = 2 \<and>
        (\<forall>c\<in>set categories. c \<noteq> ''fear'' \<longrightarrow> keyword_count c (lower ?A) = 0)"
      using a by (simp add: categories_eq)
    note T = keyword_fallback_confidence [of ?A, unfolded Let_def]
    note T4 = T [THEN conjunct2, THEN conjunct2, THEN conjunct2]
    from T4 [THEN bspec, OF mem, THEN mp, OF hyp]
    show ?thesis by (simp only: prod_eq_iff fst_conv snd_conv)
  qed
  have 2: "detect_with_keywords ?B = (''sadness'', double (8 / 10))"
  proof -
    have mem: "''sadness'' \<in> set categories" "''joy'' \<in> set categories"
      by (simp_all add: categories_eq)
    have hyp: "''sadness'' \<noteq> ''joy'' \<and> keyword_count ''sadness'' (lower ?B) = 3 \<and>
        keyword_count ''joy'' (lower ?B) = 1 \<and>
        (\<forall>c\<in>set categories. c \<noteq> ''sadness'' \<and> c \<noteq> ''joy'' \<longrightarrow>
            keyword_count c (lower ?B) = 0)"
      using b by (simp add: categories_eq)
    note T = keyword_fallback_confidence [of ?B, unfolded Let_def]
    note T3 = T [THEN conjunct2, THEN conjunct2, THEN conjunct1]
    from T3 [THEN bspec, OF mem(1), THEN bspec, OF mem(2), THEN mp, OF hyp]
    show ?thesis by (simp only: prod_eq_iff fst_conv snd_conv)
  qed
  have 3: "snd (detect_with_keywords ''Hello there'') = 1 / 2"
  proof -
    have hyp: "sum_list (map (\<lambda>c. keyword_count c (lower ''Hello there'')) categories) = 0"
      using h by (simp add: categories_eq)
    note T = keyword_fallback_confidence [of "''Hello there''", unfolded Let_def]
    note T2 = T [THEN conjunct2, THEN conjunct1]
    from T2 [THEN mp, OF hyp]
    show ?thesis by (simp only: d0_5_half)
  qed
  from 1 2 3 show ?thesis by (intro conjI)
qed

subsection \<open>The two tiers\<close>

lemma detect_emotion_Inr: "\<exists>r. detect_emotion emotion_model msg = Inr r"
  by (simp add: detect_emotion_def split: option.splits sum.splits)

lemma detect_emotion_method:
  "detect_emotion emotion_model msg = Inr r \<Longrightarrow>
     method r = ''default'' \<or> method r = ''flair'' \<or> method r = ''keywords''"
  by (auto simp add: detect_emotion_def default_result_def keyword_result_def flair_body_def
      split: option.splits sum.splits if_splits list.splits prod.splits)

lemma detect_emotion_fallback:
  assumes "msg \<noteq> []" "strip msg \<noteq> []"
    and "emotion_model = None \<or> (\<exists>model e. emotion_model = Some model \<and> model msg = Inl e)"
  shows "detect_emotion emotion_model msg = Inr (keyword_result msg)"
  using assms by (auto simp add: detect_emotion_def flair_body_def)

text \<open>
  Claim C2. For every text and every model, loaded or not, \<^verbatim>\<open>detect_emotion\<close> returns a
  result and raises nothing; the result has an emotion, a confidence and a method, and
  the method is \<^verbatim>\<open>default\<close>, \<^verbatim>\<open>flair\<close> or \<^verbatim>\<open>keywords\<close>. When the text is not blank and
  either no model is loaded or the model raises on it, the result is the one of the
  keyword path.
\<close>

theorem detect_emotion_never_raises:
  "\<exists>r. detect_emotion emotion_model msg = Inr r \<and>
       (method r = ''default'' \<or> method r = ''flair'' \<or> method r = ''keywords'') \<and>
       (msg \<noteq> [] \<and> strip msg \<noteq> [] \<and>
        (emotion_model = None \<or>
         (\<exists>model e. emotion_model = Some model \<and> model msg = Inl e)) \<longrightarrow>
        r = keyword_result msg \<and> method r = ''keywords'')"
proof -
  obtain r where r: "detect_emotion emotion_model msg = Inr r"
    using detect_emotion_Inr by blast
  have "method (keyword_result msg) = ''keywords''"
    by (simp add: keyword_result_def split: prod.splits)
  with r detect_emotion_method [OF r] detect_emotion_fallback [of msg emotion_model]
  show ?thesis by auto
qed

lemma keyword_result_sad:
  "keyword_result ''I am sad'' =
     \<lparr>emotion = ''sadness'', confidence = double (9 / 10), method = ''keywords'',
      all_emotions = None\<rparr>"
  by code_simp

lemma strip_sad: "strip ''I am sad'' = ''I am sad''"
  by code_simp

theorem detect_emotion_never_raises_witness:
  "detect_emotion (Some (\<lambda>t. Inl RuntimeError)) ''I am sad'' =
     Inr \<lparr>emotion = ''sadness'', confidence = double (9 / 10), method = ''keywords'',
          all_emotions = None\<rparr> \<and>
   detect_emotion None ''I am sad'' =
     Inr \<lparr>emotion = ''sadness'', confidence = double (9 / 10), method = ''keywords'',
          all_emotions = None\<rparr>"
proof -
  have ne: "''I am sad'' \<noteq> []" "strip ''I am sad'' \<noteq> []"
    by (simp_all add: strip_sad)
  have a: "\<exists>model e. Some (\<lambda>t. Inl RuntimeError) = Some model \<and> model ''I am sad'' = Inl e"
    by (intro exI [of _ "\<lambda>t. Inl RuntimeError"] exI [of _ RuntimeError]) simp
  from detect_emotion_never_raises [of "Some (\<lambda>t. Inl RuntimeError)" "''I am sad''"] ne a
  have 1: "detect_emotion (Some (\<lambda>t. Inl RuntimeError)) ''I am sad'' =
      Inr (keyword_result ''I am sad'')"
    by blast
  from detect_emotion_never_raises [of None "''I am sad''"] ne
  have 2: "detect_emotion None ''I am sad'' = Inr (keyword_result ''I am sad'')"
    by blast
  from 1 2 show ?thesis
    by (simp only: keyword_result_sad)
qed

section \<open>Properties of the response tables\<close>

lemma therapy_keys:
  "map fst THERAPY_TECHNIQUES = [''sadness'', ''anger'', ''fear'', ''joy'', ''neutral'']"
  by (simp add: THERAPY_TECHNIQUES_def)

lemma empathetic_keys:
  "map fst EMPATHETIC_RESPONSES = [''sadness'', ''anger'', ''fear'', ''joy'', ''neutral'']"
  by (simp add: EMPATHETIC_RESPONSES_def)

lemma has_key_iff: "has_key k table \<longleftrightarrow> k \<in> set (map fst table)"
  by (simp add: has_key_def map_of_eq_None_iff)

lemma detect_with_keywords_label:
  "fst (detect_with_keywords msg) \<in> set (''neutral'' # categories)"
proof -
  have "snd (highest_score (emotion_scores (lower msg)) (0, ''neutral''))
      \<in> insert ''neutral'' (fst ` set (emotion_scores (lower msg)))"
    by (rule highest_score_label)
  moreover have "fst ` set (emotion_scores (lower msg)) = set categories"
    by (simp add: emotion_scores_eq image_image)
  moreover have "fst (detect_with_keywords msg) =
      snd (highest_score (emotion_scores (lower msg)) (0, ''neutral''))"
    by (simp add: detect_with_keywords_def Let_def split: prod.splits)
  ultimately show ?thesis
    by simp
qed

text \<open>
  Claim C7. Every key of \<^verbatim>\<open>EMOTION_KEYWORDS\<close>, and \<^verbatim>\<open>neutral\<close>, is a key of
  \<^verbatim>\<open>THERAPY_TECHNIQUES\<close> and of \<^verbatim>\<open>EMPATHETIC_RESPONSES\<close>, and the label that the keyword
  fallback returns for a text is always one of these.
\<close>

theorem keyword_labels_are_table_keys:
  "(\<forall>label\<in>set (''neutral'' # map fst EMOTION_KEYWORDS).
      has_key label THERAPY_TECHNIQUES \<and> has_key label EMPATHETIC_RESPONSES) \<and>
   fst (detect_with_keywords msg) \<in> set (''neutral'' # map fst EMOTION_KEYWORDS) \<and>
   has_key (fst (detect_with_keywords msg)) THERAPY_TECHNIQUES \<and>
   has_key (fst (detect_with_keywords msg)) EMPATHETIC_RESPONSES"
proof -
  have keys: "\<forall>label\<in>set (''neutral'' # map fst EMOTION_KEYWORDS).
      has_key label THERAPY_TECHNIQUES \<and> has_key label EMPATHETIC_RESPONSES"
    unfolding has_key_iff therapy_keys empathetic_keys categories_def [symmetric] categories_eq
    by simp
  moreover have "fst (detect_with_keywords msg) \<in> set (''neutral'' # map fst EMOTION_KEYWORDS)"
    using detect_with_keywords_label [of msg] by (simp add: categories_def)
  ultimately show ?thesis by blast
qed

theorem keyword_labels_are_table_keys_witness:
  "has_key ''fear'' THERAPY_TECHNIQUES \<and> has_key ''fear'' EMPATHETIC_RESPONSES \<and>
   has_key (fst (detect_with_keywords ''I am sad'')) THERAPY_TECHNIQUES"
proof -
  have "''fear'' \<in> set (''neutral'' # map fst EMOTION_KEYWORDS)"
    by (simp add: EMOTION_KEYWORDS_def)
  with keyword_labels_are_table_keys [of "''I am sad''"] show ?thesis
    by blast
qed

section \<open>Properties of the handlers\<close>

subsection \<open>Statements, one at a time\<close>

lemma empathetic_nonempty: "map_of EMPATHETIC_RESPONSES k = Some rs \<Longrightarrow> rs \<noteq> []"
  by (auto simp add: EMPATHETIC_RESPONSES_def split: if_splits)

lemma therapy_nonempty: "map_of THERAPY_TECHNIQUES k = Some ts \<Longrightarrow> ts \<noteq> []"
  by (auto simp add: THERAPY_TECHNIQUES_def split: if_splits)

lemma subscript_has_key:
  "has_key k table \<Longrightarrow> \<exists>v. map_of table k = Some v \<and> subscript table k = Inr v"
  by (auto simp add: has_key_def subscript_def)

lemma subscript_no_key: "\<not> has_key k table \<Longrightarrow> subscript table k = Inl KeyError"
  by (simp add: has_key_def subscript_def)

lemma py_bind_return [simp]: "py_bind (py_return x) f \<sigma> = f x \<sigma>"
  by (simp add: py_bind_def py_return_def)

lemma py_bind_lift_Inr [simp]: "py_bind (py_lift (Inr x)) f \<sigma> = f x \<sigma>"
  by (simp add: py_bind_def py_lift_def)

lemma py_bind_lift_Inl [simp]: "py_bind (py_lift (Inl e)) f \<sigma> = (Inl e, \<sigma>)"
  by (simp add: py_bind_def py_lift_def)

lemma py_bind_utter [simp]:
  "py_bind (utter_message m) f \<sigma> = f () (\<sigma>\<lparr>messages := messages \<sigma> @ [m]\<rparr>)"
  by (simp add: py_bind_def utter_message_def)

lemma py_bind_random [simp]:
  "py_bind random_random f \<sigma> = f (next_random \<sigma>) (\<sigma>\<lparr>cursor := cursor \<sigma> + 1\<rparr>)"
  by (simp add: py_bind_def random_random_def next_random_def)

lemma py_bind_choice [simp]:
  "xs \<noteq> [] \<Longrightarrow>
     py_bind (random_choice xs) f \<sigma> =
       f (xs ! (draws \<sigma> (cursor \<sigma>) mod length xs)) (\<sigma>\<lparr>cursor := cursor \<sigma> + 1\<rparr>)"
  by (simp add: py_bind_def random_choice_def)

lemma choice_in_set: "xs \<noteq> [] \<Longrightarrow> xs ! (n mod length xs) \<in> set xs"
  by simp

subsection \<open>ActionSuggestCopingStrategy\<close>

lemma mapped_emotion_has_key: "has_key (mapped_emotion slot) THERAPY_TECHNIQUES"
proof -
  have "has_key ''neutral'' THERAPY_TECHNIQUES"
    by (simp add: has_key_iff therapy_keys)
  then show ?thesis
    by (simp add: mapped_emotion_def Let_def)
qed

lemma suggest_coping_strategy_run_eq:
  assumes "map_of THERAPY_TECHNIQUES (mapped_emotion (detected_emotion_slot tracker)) = Some ts"
  shows "suggest_coping_strategy_run tracker \<sigma> =
     (Inr [], \<sigma>\<lparr>cursor := cursor \<sigma> + 1,
               messages := messages \<sigma> @
                 [JStr (intro (mapped_emotion (detected_emotion_slot tracker)) @
                        ''\<newline>\<newline>'' @ ts ! (draws \<sigma> (cursor \<sigma>) mod length ts))]\<rparr>)"
proof -
  have ne: "ts \<noteq> []"
    using assms by (rule therapy_nonempty)
  have sub: "subscript THERAPY_TECHNIQUES (mapped_emotion (detected_emotion_slot tracker)) = Inr ts"
    using assms by (simp add: subscript_def)
  show ?thesis
    by (simp add: suggest_coping_strategy_run_def Let_def sub ne py_return_def)
qed

lemma synonyms_mapped:
  "\<forall>s\<in>set [''sad'', ''angry'', ''anxious'', ''afraid'', ''happy'', ''excited''].
      \<exists>m. map_of emotion_mapping s = Some m \<and> mapped_emotion (Some s) = m \<and>
          has_key m THERAPY_TECHNIQUES \<and> has_key m EMPATHETIC_RESPONSES"
  by (simp add: emotion_mapping_def mapped_emotion_def has_key_iff therapy_keys empathetic_keys)

lemma sadness_techniques:
  "map_of THERAPY_TECHNIQUES ''sadness'' = Some
     [''Practice self-compassion by treating yourself with the same kindness you'd offer to a friend.'',
      ''Try journaling about your feelings to help process them.'',
      ''Engage in light physical activity like walking, which can help improve your mood.'',
      ''Connect with a supportive friend or family member.'',
      ''Remember that emotions are temporary and will pass with time.'']"
  by (simp add: THERAPY_TECHNIQUES_def)

lemma mapped_emotion_synonyms:
  "mapped_emotion (Some ''sad'') = ''sadness''"
  "mapped_emotion (Some ''angry'') = ''anger''"
  "mapped_emotion (Some ''anxious'') = ''fear''"
  "mapped_emotion (Some ''afraid'') = ''fear''"
  "mapped_emotion (Some ''happy'') = ''joy''"
  "mapped_emotion (Some ''excited'') = ''joy''"
  by (simp_all add: mapped_emotion_def emotion_mapping_def has_key_iff therapy_keys)

lemma mapped_emotion_labels:
  "mapped_emotion (Some ''sadness'') = ''sadness''"
  "mapped_emotion (Some ''anger'') = ''anger''"
  "mapped_emotion (Some ''fear'') = ''fear''"
  "mapped_emotion (Some ''joy'') = ''joy''"
  "mapped_emotion (Some ''neutral'') = ''neutral''"
  by (simp_all add: mapped_emotion_def emotion_mapping_def has_key_iff therapy_keys)

lemma mapped_emotion_default:
  "mapped_emotion None = ''neutral''"
  "mapped_emotion (Some []) = ''neutral''"
  by (simp_all add: mapped_emotion_def emotion_mapping_def has_key_iff therapy_keys)

lemma mapped_emotion_unknown:
  assumes "label \<notin> set [''sad'', ''angry'', ''anxious'', ''afraid'', ''happy'', ''excited'']"
    and "label \<notin> set [''sadness'', ''anger'', ''fear'', ''joy'', ''neutral'']"
  shows "mapped_emotion (Some label) = ''neutral''"
  using assms
  by (auto simp add: mapped_emotion_def emotion_mapping_def has_key_iff therapy_keys)

lemma intro_values:
  "intro ''sadness'' = ''When you're feeling down, it can help to:''"
  "intro ''anger'' = ''To manage feelings of frustration or anger, you might try:''"
  "intro ''fear'' = ''When anxiety or fear arises, this technique can be helpful:''"
  "intro ''joy'' = ''To build on these positive feelings, consider:''"
  "intro ''neutral'' = ''Here's a helpful technique you might want to try:''"
  by (simp_all add: intro_def)

lemma mapped_emotion_range:
  "mapped_emotion slot \<in> set [''sadness'', ''anger'', ''fear'', ''joy'', ''neutral'']"
  using mapped_emotion_has_key [of slot] by (simp add: has_key_iff therapy_keys)

text \<open>
  Claim C9. Each of the synonyms sad, angry, anxious, afraid, happy and excited is mapped
  to a label that is a key of both response tables: sad to sadness, angry to anger,
  anxious and afraid to fear, happy and excited to joy. The five labels of the tables are
  kept as they are; an unset slot, the empty string and every other label give
  \<^verbatim>\<open>neutral\<close>. The introduction is fixed by the mapped emotion, one sentence for each of
  the five labels. For every slot value and every state the handler raises nothing: it
  consumes one draw and sends one text, the introduction of the mapped emotion, two
  newlines, and the technique that the draw selects in the mapped emotion's list.
\<close>

theorem suggest_coping_strategy_total:
  "(\<forall>s\<in>set [''sad'', ''angry'', ''anxious'', ''afraid'', ''happy'', ''excited''].
      \<exists>m. map_of emotion_mapping s = Some m \<and> mapped_emotion (Some s) = m \<and>
          has_key m THERAPY_TECHNIQUES \<and> has_key m EMPATHETIC_RESPONSES) \<and>
   mapped_emotion (Some ''sad'') = ''sadness'' \<and>
   mapped_emotion (Some ''angry'') = ''anger'' \<and>
   mapped_emotion (Some ''anxious'') = ''fear'' \<and>
   mapped_emotion (Some ''afraid'') = ''fear'' \<and>
   mapped_emotion (Some ''happy'') = ''joy'' \<and>
   mapped_emotion (Some ''excited'') = ''joy'' \<and>
   mapped_emotion (Some ''sadness'') = ''sadness'' \<and>
   mapped_emotion (Some ''anger'') = ''anger'' \<and>
   mapped_emotion (Some ''fear'') = ''fear'' \<and>
   mapped_emotion (Some ''joy'') = ''joy'' \<and>
   mapped_emotion (Some ''neutral'') = ''neutral'' \<and>
   mapped_emotion None = ''neutral'' \<and>
   mapped_emotion (Some []) = ''neutral'' \<and>
   (label \<notin> set [''sad'', ''angry'', ''anxious'', ''afraid'', ''happy'', ''excited''] \<and>
    label \<notin> set [''sadness'', ''anger'', ''fear'', ''joy'', ''neutral''] \<longrightarrow>
      mapped_emotion (Some label) = ''neutral'') \<and>
   intro ''sadness'' = ''When you're feeling down, it can help to:'' \<and>
   intro ''anger'' = ''To manage feelings of frustration or anger, you might try:'' \<and>
   intro ''fear'' = ''When anxiety or fear arises, this technique can be helpful:'' \<and>
   intro ''joy'' = ''To build on these positive feelings, consider:'' \<and>
   intro ''neutral'' = ''Here's a helpful technique you might want to try:'' \<and>
   mapped_emotion (detected_emotion_slot tracker)
     \<in> set [''sadness'', ''anger'', ''fear'', ''joy'', ''neutral''] \<and>
   (\<exists>techniques.
      map_of THERAPY_TECHNIQUES (mapped_emotion (detected_emotion_slot tracker)) =
        Some techniques \<and>
      techniques \<noteq> [] \<and>
      suggest_coping_strategy_run tracker \<sigma> =
        (Inr [], \<sigma>\<lparr>cursor := cursor \<sigma> + 1,
                  messages := messages \<sigma> @
                    [JStr (intro (mapped_emotion (detected_emotion_slot tracker)) @
                           ''\<newline>\<newline>'' @
                           techniques ! (draws \<sigma> (cursor \<sigma>) mod length techniques))]\<rparr>))"
proof -
  let ?m = "mapped_emotion (detected_emotion_slot tracker)"
  from subscript_has_key [OF mapped_emotion_has_key, of "detected_emotion_slot tracker"]
  obtain ts where ts: "map_of THERAPY_TECHNIQUES ?m = Some ts"
    by blast
  have run: "\<exists>techniques.
      map_of THERAPY_TECHNIQUES ?m = Some techniques \<and> techniques \<noteq> [] \<and>
      suggest_coping_strategy_run tracker \<sigma> =
        (Inr [], \<sigma>\<lparr>cursor := cursor \<sigma> + 1,
                  messages := messages \<sigma> @
                    [JStr (intro ?m @ ''\<newline>\<newline>'' @
                           techniques ! (draws \<sigma> (cursor \<sigma>) mod length techniques))]\<rparr>)"
    using ts therapy_nonempty [OF ts] suggest_coping_strategy_run_eq [OF ts, of \<sigma>]
    by blast
  have unknown: "label \<notin> set [''sad'', ''angry'', ''anxious'', ''afraid'', ''happy'', ''excited''] \<and>
    label \<notin> set [''sadness'', ''anger'', ''fear'', ''joy'', ''neutral''] \<longrightarrow>
      mapped_emotion (Some label) = ''neutral''"
    using mapped_emotion_unknown [of label] by blast
  show ?thesis
    by (intro conjI synonyms_mapped mapped_emotion_synonyms mapped_emotion_labels
        mapped_emotion_default unknown intro_values mapped_emotion_range run)
qed

theorem suggest_coping_strategy_total_witness:
  "suggest_coping_strategy_run
     \<lparr>latest_text = None, intent_confidence = None, detected_emotion_slot = Some ''sad''\<rparr>
     \<lparr>messages = [], draws = (\<lambda>n. 7), cursor = 0\<rparr> =
   (Inr [],
    \<lparr>messages = [JStr (''When you're feeling down, it can help to:'' @ ''\<newline>\<newline>'' @
        ''Engage in light physical activity like walking, which can help improve your mood.'')],
     draws = (\<lambda>n. 7), cursor = 1\<rparr>) \<and>
   mapped_emotion (Some ''surprise'') = ''neutral''"
proof -
  let ?T = "\<lparr>latest_text = None, intent_confidence = None, detected_emotion_slot = Some ''sad''\<rparr>"
  let ?S = "\<lparr>messages = [], draws = (\<lambda>n. 7), cursor = 0\<rparr>"
  note T = suggest_coping_strategy_total [of "''surprise''" ?T ?S]
  have m: "mapped_emotion (detected_emotion_slot ?T) = ''sadness''"
    using T by simp
  have i: "intro ''sadness'' = ''When you're feeling down, it can help to:''"
    using T by blast
  from T obtain techniques where t:
    "map_of THERAPY_TECHNIQUES (mapped_emotion (detected_emotion_slot ?T)) = Some techniques"
    "suggest_coping_strategy_run ?T ?S =
        (Inr [], ?S\<lparr>cursor := cursor ?S + 1,
                  messages := messages ?S @
                    [JStr (intro (mapped_emotion (detected_emotion_slot ?T)) @
                           ''\<newline>\<newline>'' @
                           techniques ! (draws ?S (cursor ?S) mod length techniques))]\<rparr>)"
    by blast
  from t(1) have ts: "techniques =
     [''Practice self-compassion by treating yourself with the same kindness you'd offer to a friend.'',
      ''Try journaling about your feelings to help process them.'',
      ''Engage in light physical activity like walking, which can help improve your mood.'',
      ''Connect with a supportive friend or family member.'',
      ''Remember that emotions are temporary and will pass with time.'']"
    by (simp only: m sadness_techniques option.inject)
  have 1: "suggest_coping_strategy_run ?T ?S =
   (Inr [],
    \<lparr>messages = [JStr (''When you're feeling down, it can help to:'' @ ''\<newline>\<newline>'' @
        ''Engage in light physical activity like walking, which can help improve your mood.'')],
     draws = (\<lambda>n. 7), cursor = 1\<rparr>)"
    unfolding t(2) m i ts by simp
  have hyp: "''surprise'' \<notin> set [''sad'', ''angry'', ''anxious'', ''afraid'', ''happy'', ''excited''] \<and>
    ''surprise'' \<notin> set [''sadness'', ''anger'', ''fear'', ''joy'', ''neutral'']"
    by simp
  from T hyp have 2: "mapped_emotion (Some ''surprise'') = ''neutral''"
    by blast
  from 1 2 show ?thesis
    by (intro conjI)
qed

text \<open>
  Claim C10. For every slot value and every state, \<^verbatim>\<open>ActionSuggestCopingStrategy.run\<close>
  returns the empty list of events: it sends one text and writes no slot, so the mapped
  emotion is not stored.
\<close>

theorem suggest_coping_strategy_no_event:
  "fst (suggest_coping_strategy_run tracker \<sigma>) = Inr [] \<and>
   (\<exists>msg. messages (snd (suggest_coping_strategy_run tracker \<sigma>)) = messages \<sigma> @ [JStr msg])"
proof -
  from subscript_has_key [OF mapped_emotion_has_key, of "detected_emotion_slot tracker"]
  obtain ts where "map_of THERAPY_TECHNIQUES (mapped_emotion (detected_emotion_slot tracker)) = Some ts"
    by blast
  from suggest_coping_strategy_run_eq [OF this, of \<sigma>] show ?thesis
    by simp
qed

subsection \<open>ActionProcessMessage\<close>

lemma d0_3_le: "d0_3 \<le> 3 / 10"
  by code_simp

text \<open>
  Claim C8. When the confidence of the intent is at least \<^verbatim>\<open>0.3\<close> (the double that the
  literal denotes, which is below three tenths), \<^verbatim>\<open>ActionProcessMessage.run\<close> leaves the
  state as it is, so it sends no text and draws no random number, and it returns exactly
  one event, the update of the slot \<^verbatim>\<open>detected_emotion\<close> to the detected emotion.
\<close>

theorem process_message_confident:
  assumes "intent_confidence tracker = Some c" and "d0_3 \<le> c"
  shows "\<exists>r. detect_emotion emotion_model (latest_message_text tracker) = Inr r \<and>
             process_message_run emotion_model service tracker \<sigma> =
               (Inr [SlotSet ''detected_emotion'' (emotion r)], \<sigma>)"
proof -
  obtain r where r: "detect_emotion emotion_model (latest_message_text tracker) = Inr r"
    using detect_emotion_Inr by blast
  have "\<not> c < d0_3"
    using assms(2) by simp
  then have "process_message_run emotion_model service tracker \<sigma> =
               (Inr [SlotSet ''detected_emotion'' (emotion r)], \<sigma>)"
    using assms(1) r by (simp add: process_message_run_def Let_def py_return_def)
  with r show ?thesis by blast
qed

lemma d0_3_le_9: "d0_3 \<le> 9 / 10"
  by code_simp

lemma detect_sad: "detect_emotion None ''I am sad'' =
     Inr \<lparr>emotion = ''sadness'', confidence = double (9 / 10), method = ''keywords'',
          all_emotions = None\<rparr>"
  by code_simp

theorem process_message_confident_witness:
  "process_message_run None (\<lambda>p m. Raises RequestException)
     \<lparr>latest_text = Some ''I am sad'', intent_confidence = Some (9 / 10),
      detected_emotion_slot = None\<rparr>
     \<lparr>messages = [], draws = (\<lambda>n. 0), cursor = 0\<rparr> =
   (Inr [SlotSet ''detected_emotion'' ''sadness''],
    \<lparr>messages = [], draws = (\<lambda>n. 0), cursor = 0\<rparr>)"
  using process_message_confident [of
     "\<lparr>latest_text = Some ''I am sad'', intent_confidence = Some (9 / 10),
      detected_emotion_slot = None\<rparr>" "9 / 10" None "\<lambda>p m. Raises RequestException"
     "\<lparr>messages = [], draws = (\<lambda>n. 0), cursor = 0\<rparr>"] d0_3_le_9
  by (simp add: detect_sad latest_message_text_def)

subsection \<open>The remote call and its fallbacks\<close>


lemma py_bind_assoc: "py_bind (py_bind m f) g = py_bind m (\<lambda>x. py_bind (f x) g)"
  by (rule ext) (simp add: py_bind_def split: prod.splits sum.splits)

lemma remote_failed_eq:
  assumes "map_of EMPATHETIC_RESPONSES emo = Some rs"
  shows "remote_failed emo e \<sigma> =
     (Inr (), \<sigma>\<lparr>cursor := cursor \<sigma> + 1,
               messages := messages \<sigma> @ [JStr (rs ! (draws \<sigma> (cursor \<sigma>) mod length rs))]\<rparr>)"
proof -
  have ne: "rs \<noteq> []"
    using assms by (rule empathetic_nonempty)
  have sub: "subscript EMPATHETIC_RESPONSES emo = Inr rs"
    using assms by (simp add: subscript_def)
  have "remote_failed emo e \<sigma> =
      utter_message (JStr (rs ! (draws \<sigma> (cursor \<sigma>) mod length rs))) (\<sigma>\<lparr>cursor := cursor \<sigma> + 1\<rparr>)"
    by (simp add: remote_failed_def sub ne)
  then show ?thesis
    by (simp add: utter_message_def)
qed

lemma remote_failed_no_key:
  "\<not> has_key emo EMPATHETIC_RESPONSES \<Longrightarrow> remote_failed emo e \<sigma> = (Inl KeyError, \<sigma>)"
  by (simp add: remote_failed_def subscript_no_key)

lemma canned_one: "rs \<noteq> [] \<Longrightarrow> canned rs [JStr (rs ! (n mod length rs))]"
  by (simp add: canned_def)

lemma canned_two:
  "rs \<noteq> [] \<Longrightarrow> canned rs [JStr (rs ! (n mod length rs)), JStr (rs ! (k mod length rs))]"
  by (simp add: canned_def)

lemma try_remote_fails:
  assumes rs: "map_of EMPATHETIC_RESPONSES emo = Some rs"
    and fail: "\<not> remote_succeeds (service (system_prompt ctx) message)"
  shows "\<exists>new \<sigma>'. py_try (remote_attempt service ctx message emo) (remote_failed emo) \<sigma> =
            (Inr (), \<sigma>') \<and> messages \<sigma>' = messages \<sigma> @ new \<and> canned rs new"
proof -
  have ne: "rs \<noteq> []"
    using rs by (rule empathetic_nonempty)
  have sub: "subscript EMPATHETIC_RESPONSES emo = Inr rs"
    using rs by (simp add: subscript_def)
  note rf = remote_failed_eq [OF rs]
  show ?thesis
  proof (cases "service (system_prompt ctx) message")
    case (Raises e)
    then have "py_try (remote_attempt service ctx message emo) (remote_failed emo) \<sigma> =
        remote_failed emo e \<sigma>"
      by (simp add: py_try_def remote_attempt_def post_def)
    then show ?thesis
      using canned_one [OF ne] by (simp add: rf)
  next
    case (Response status_code data)
    show ?thesis
    proof (cases "status_code = 200")
      case False
      show ?thesis
      proof (cases "py_get data ''error'' (JStr ''Unknown error'')")
        case (Inl e)
        with Response False have "py_try (remote_attempt service ctx message emo) (remote_failed emo) \<sigma> =
          remote_failed emo e (\<sigma>\<lparr>cursor := cursor \<sigma> + 1,
               messages := messages \<sigma> @ [JStr (rs ! (draws \<sigma> (cursor \<sigma>) mod length rs))]\<rparr>)"
          by (simp add: py_try_def remote_attempt_def post_def sub ne)
        then show ?thesis
          using canned_two [OF ne] by (simp add: rf)
      next
        case (Inr v)
        with Response False have "py_try (remote_attempt service ctx message emo) (remote_failed emo) \<sigma> =
          (Inr (), \<sigma>\<lparr>cursor := cursor \<sigma> + 1,
               messages := messages \<sigma> @ [JStr (rs ! (draws \<sigma> (cursor \<sigma>) mod length rs))]\<rparr>)"
          by (simp add: py_try_def remote_attempt_def post_def sub ne py_return_def)
        then show ?thesis
          using canned_one [OF ne] by simp
      qed
    next
      case True
      show ?thesis
      proof (cases "py_contains ''choices'' data")
        case (Inl e)
        with Response True have "py_try (remote_attempt service ctx message emo) (remote_failed emo) \<sigma> =
            remote_failed emo e \<sigma>"
          by (simp add: py_try_def remote_attempt_def post_def)
        then show ?thesis
          using canned_one [OF ne] by (simp add: rf)
      next
        case (Inr success)
        show ?thesis
        proof (cases success)
          case True
          with fail Response \<open>status_code = 200\<close> Inr obtain e where e: "content_of data = Inl e"
            by (cases "content_of data") (simp_all add: remote_succeeds_def)
          with Response \<open>status_code = 200\<close> Inr True
          have "py_try (remote_attempt service ctx message emo) (remote_failed emo) \<sigma> =
              remote_failed emo e \<sigma>"
            by (simp add: py_try_def remote_attempt_def post_def)
          then show ?thesis
            using canned_one [OF ne] by (simp add: rf)
        next
          case False
          show ?thesis
          proof (cases "py_get data ''error'' (JStr ''Unknown error'')")
            case (Inl e)
            with Response \<open>status_code = 200\<close> \<open>py_contains ''choices'' data = Inr success\<close> False
            have "py_try (remote_attempt service ctx message emo) (remote_failed emo) \<sigma> =
              remote_failed emo e (\<sigma>\<lparr>cursor := cursor \<sigma> + 1,
               messages := messages \<sigma> @ [JStr (rs ! (draws \<sigma> (cursor \<sigma>) mod length rs))]\<rparr>)"
              by (simp add: py_try_def remote_attempt_def post_def sub ne)
            then show ?thesis
              using canned_two [OF ne] by (simp add: rf)
          next
            case (Inr v)
            with Response \<open>status_code = 200\<close> \<open>py_contains ''choices'' data = Inr success\<close> False
            have "py_try (remote_attempt service ctx message emo) (remote_failed emo) \<sigma> =
              (Inr (), \<sigma>\<lparr>cursor := cursor \<sigma> + 1,
               messages := messages \<sigma> @ [JStr (rs ! (draws \<sigma> (cursor \<sigma>) mod length rs))]\<rparr>)"
              by (simp add: py_try_def remote_attempt_def post_def sub ne py_return_def)
            then show ?thesis
              using canned_one [OF ne] by simp
          qed
        qed
      qed
    qed
  qed
qed


lemma try_remote_succeeds:
  assumes "service (system_prompt ctx) message = Response status_code data"
    and "remote_succeeds (service (system_prompt ctx) message)"
  shows "\<exists>ai. content_of data = Inr ai \<and>
     py_try (remote_attempt service ctx message emo) (remote_failed emo) \<sigma> =
       (Inr (), \<sigma>\<lparr>messages := messages \<sigma> @ [ai]\<rparr>)"
proof -
  from assms have s: "status_code = 200" and c: "py_contains ''choices'' data = Inr True"
    by (simp_all add: remote_succeeds_def)
  from assms obtain ai where ai: "content_of data = Inr ai"
    by (cases "content_of data") (simp_all add: remote_succeeds_def)
  have "py_try (remote_attempt service ctx message emo) (remote_failed emo) \<sigma> =
       (Inr (), \<sigma>\<lparr>messages := messages \<sigma> @ [ai]\<rparr>)"
    by (simp add: py_try_def remote_attempt_def post_def assms(1) s c ai utter_message_def)
  with ai show ?thesis by blast
qed

lemma try_remote_returns:
  assumes "has_key emo EMPATHETIC_RESPONSES"
  shows "fst (py_try (remote_attempt service ctx message emo) (remote_failed emo) \<sigma>) = Inr ()"
proof (cases "remote_succeeds (service (system_prompt ctx) message)")
  case True
  then obtain status_code data where "service (system_prompt ctx) message = Response status_code data"
    by (cases "service (system_prompt ctx) message") (simp_all add: remote_succeeds_def)
  from try_remote_succeeds [where service = service and ctx = ctx and message = message
      and emo = emo and \<sigma> = \<sigma>, OF this True]
  show ?thesis
    by auto
next
  case False
  from subscript_has_key [OF assms] obtain rs where "map_of EMPATHETIC_RESPONSES emo = Some rs"
    by blast
  from try_remote_fails [where service = service and ctx = ctx and message = message
      and \<sigma> = \<sigma>, OF this False]
  show ?thesis
    by auto
qed

lemma sub_no_key_bind [simp]:
  "\<not> has_key emo EMPATHETIC_RESPONSES \<Longrightarrow>
     py_bind (py_lift (subscript EMPATHETIC_RESPONSES emo)) f \<sigma> = (Inl KeyError, \<sigma>)"
  by (simp add: subscript_no_key)

lemma try_remote_unknown_label:
  assumes nk: "\<not> has_key emo EMPATHETIC_RESPONSES"
    and fail: "\<not> remote_succeeds (service (system_prompt ctx) message)"
  shows "fst (py_try (remote_attempt service ctx message emo) (remote_failed emo) \<sigma>) =
     Inl KeyError"
proof (cases "service (system_prompt ctx) message")
  case (Raises e)
  then show ?thesis
    by (simp add: py_try_def remote_attempt_def post_def remote_failed_no_key [OF nk])
next
  case (Response status_code data)
  show ?thesis
  proof (cases "status_code = 200")
    case False
    with Response show ?thesis
      by (simp add: py_try_def remote_attempt_def post_def nk remote_failed_no_key [OF nk])
  next
    case True
    show ?thesis
    proof (cases "py_contains ''choices'' data")
      case (Inl e)
      with Response True show ?thesis
        by (simp add: py_try_def remote_attempt_def post_def remote_failed_no_key [OF nk])
    next
      case (Inr success)
      show ?thesis
      proof (cases success)
        case True
        with fail Response \<open>status_code = 200\<close> Inr obtain e where e: "content_of data = Inl e"
          by (cases "content_of data") (simp_all add: remote_succeeds_def)
        with Response \<open>status_code = 200\<close> Inr True show ?thesis
          by (simp add: py_try_def remote_attempt_def post_def remote_failed_no_key [OF nk])
      next
        case False
        with Response \<open>status_code = 200\<close> Inr show ?thesis
          by (simp add: py_try_def remote_attempt_def post_def nk remote_failed_no_key [OF nk])
      qed
    qed
  qed
qed

lemma predefined_response_returns:
  assumes "has_key emo EMPATHETIC_RESPONSES"
  shows "\<exists>\<sigma>'. predefined_response emo \<sigma> = (Inr [SlotSet ''detected_emotion'' emo], \<sigma>')"
proof -
  from subscript_has_key [OF assms] obtain rs where rs: "map_of EMPATHETIC_RESPONSES emo = Some rs"
    "subscript EMPATHETIC_RESPONSES emo = Inr rs"
    by blast
  have ne: "rs \<noteq> []"
    using rs(1) by (rule empathetic_nonempty)
  show ?thesis
  proof (cases "emo \<in> set [''sadness'', ''anger'', ''fear'']")
    case False
    then show ?thesis
      by (simp add: predefined_response_def rs(2) ne py_return_def)
  next
    case True
    then have "has_key emo THERAPY_TECHNIQUES"
      by (auto simp add: has_key_iff therapy_keys)
    from subscript_has_key [OF this] obtain ts where ts: "map_of THERAPY_TECHNIQUES emo = Some ts"
      "subscript THERAPY_TECHNIQUES emo = Inr ts"
      by blast
    have nt: "ts \<noteq> []"
      using ts(1) by (rule therapy_nonempty)
    from True show ?thesis
      by (simp add: predefined_response_def rs(2) ne ts(2) nt py_return_def py_bind_assoc)
  qed
qed

lemma call_fallback_api_predefined:
  assumes "next_random \<sigma> < d0_7" "has_key emo EMPATHETIC_RESPONSES"
  shows "call_fallback_api service message emo \<sigma> =
           predefined_response emo (\<sigma>\<lparr>cursor := cursor \<sigma> + 1\<rparr>)"
  using assms by (simp add: call_fallback_api_def Let_def)

lemma call_fallback_api_remote:
  assumes "\<not> (next_random \<sigma> < d0_7 \<and> has_key emo EMPATHETIC_RESPONSES)"
    and "py_try (remote_attempt service (''The user seems to be feeling '' @ emo @ ''. '')
                   message emo) (remote_failed emo) (\<sigma>\<lparr>cursor := cursor \<sigma> + 1\<rparr>) = (r, \<sigma>')"
  shows "call_fallback_api service message emo \<sigma> =
           (case r of Inl e \<Rightarrow> Inl e | Inr u \<Rightarrow> Inr [SlotSet ''detected_emotion'' emo], \<sigma>')"
proof -
  have "call_fallback_api service message emo \<sigma> =
      py_bind (py_try (remote_attempt service (''The user seems to be feeling '' @ emo @ ''. '')
                   message emo) (remote_failed emo))
        (\<lambda>_. py_return [SlotSet ''detected_emotion'' emo]) (\<sigma>\<lparr>cursor := cursor \<sigma> + 1\<rparr>)"
    using assms(1) by (auto simp add: call_fallback_api_def Let_def simp del: append.simps)
  also have "\<dots> = (case r of Inl e \<Rightarrow> Inl e | Inr u \<Rightarrow> Inr [SlotSet ''detected_emotion'' emo], \<sigma>')"
    by (simp only: py_bind_def assms(2)) (simp add: py_return_def split: sum.splits)
  finally show ?thesis .
qed

lemma call_fallback_api_returns:
  assumes "has_key emo EMPATHETIC_RESPONSES"
  shows "fst (call_fallback_api service message emo \<sigma>) = Inr [SlotSet ''detected_emotion'' emo]"
proof (cases "next_random \<sigma> < d0_7")
  case True
  with predefined_response_returns [OF assms, of "\<sigma>\<lparr>cursor := cursor \<sigma> + 1\<rparr>"]
    call_fallback_api_predefined [OF True assms, of service message]
  show ?thesis
    by auto
next
  case False
  let ?\<sigma> = "\<sigma>\<lparr>cursor := cursor \<sigma> + 1\<rparr>"
  let ?ctx = "''The user seems to be feeling '' @ emo @ ''. ''"
  from try_remote_returns [where service = service and ctx = ?ctx and message = message
      and \<sigma> = ?\<sigma>, OF assms]
  obtain \<sigma>' where t: "py_try (remote_attempt service ?ctx message emo) (remote_failed emo) ?\<sigma> = (Inr (), \<sigma>')"
    by (metis prod.collapse)
  from False have "\<not> (next_random \<sigma> < d0_7 \<and> has_key emo EMPATHETIC_RESPONSES)"
    by simp
  from call_fallback_api_remote [OF this t] show ?thesis
    by simp
qed

lemma call_fallback_api_unknown_label:
  assumes nk: "\<not> has_key emo EMPATHETIC_RESPONSES"
    and fail: "\<not> remote_succeeds
       (service (system_prompt (''The user seems to be feeling '' @ emo @ ''. '')) message)"
  shows "fst (call_fallback_api service message emo \<sigma>) = Inl KeyError"
proof -
  let ?\<sigma> = "\<sigma>\<lparr>cursor := cursor \<sigma> + 1\<rparr>"
  let ?ctx = "''The user seems to be feeling '' @ emo @ ''. ''"
  from try_remote_unknown_label [where service = service and ctx = ?ctx and message = message
      and \<sigma> = ?\<sigma>, OF nk fail]
  obtain \<sigma>' where t: "py_try (remote_attempt service ?ctx message emo) (remote_failed emo) ?\<sigma> =
      (Inl KeyError, \<sigma>')"
    by (metis prod.collapse)
  from nk have "\<not> (next_random \<sigma> < d0_7 \<and> has_key emo EMPATHETIC_RESPONSES)"
    by simp
  from call_fallback_api_remote [OF this t] show ?thesis
    by simp
qed


lemma fallback_failed_eq:
  "fallback_failed e \<sigma> = (Inr (), \<sigma>\<lparr>messages := messages \<sigma> @ [JStr trouble_message]\<rparr>)"
  by (simp add: fallback_failed_def utter_message_def)

lemma generic_cases:
  "generic [JStr trouble_message]"
  "generic (case r of Inl e \<Rightarrow> [JStr not_sure_message, JStr trouble_message]
            | Inr v \<Rightarrow> [JStr not_sure_message])"
  by (simp_all add: generic_def split: sum.splits)

lemma try_fallback_fails:
  assumes fail: "\<not> remote_succeeds (service (system_prompt []) message)"
  shows "\<exists>new. py_try (fallback_attempt service message) fallback_failed \<sigma> =
            (Inr (), \<sigma>\<lparr>messages := messages \<sigma> @ new\<rparr>) \<and> generic new"
proof (cases "service (system_prompt []) message")
  case (Raises e)
  then have "py_try (fallback_attempt service message) fallback_failed \<sigma> =
      (Inr (), \<sigma>\<lparr>messages := messages \<sigma> @ [JStr trouble_message]\<rparr>)"
    by (simp add: py_try_def fallback_attempt_def post_def fallback_failed_eq)
  with generic_cases(1) show ?thesis
    by blast
next
  case (Response status_code data)
  let ?new = "case py_get data ''error'' (JStr ''Unknown error'') of
            Inl e \<Rightarrow> [JStr not_sure_message, JStr trouble_message]
          | Inr v \<Rightarrow> [JStr not_sure_message]"
  have not_ok: "py_try (fallback_attempt service message) fallback_failed \<sigma> =
      (Inr (), \<sigma>\<lparr>messages := messages \<sigma> @ ?new\<rparr>)"
    if "status_code \<noteq> 200 \<or> py_contains ''choices'' data = Inr False"
    using that Response
    by (auto simp add: py_try_def fallback_attempt_def post_def fallback_failed_eq py_return_def
        split: sum.splits)
  have raised: "py_try (fallback_attempt service message) fallback_failed \<sigma> =
      (Inr (), \<sigma>\<lparr>messages := messages \<sigma> @ [JStr trouble_message]\<rparr>)"
    if "status_code = 200" "py_contains ''choices'' data = Inl e \<or>
        (py_contains ''choices'' data = Inr True \<and> content_of data = Inl e)" for e
    using that Response
    by (auto simp add: py_try_def fallback_attempt_def post_def fallback_failed_eq)
  show ?thesis
  proof (cases "status_code = 200")
    case False
    then have "py_try (fallback_attempt service message) fallback_failed \<sigma> =
      (Inr (), \<sigma>\<lparr>messages := messages \<sigma> @ ?new\<rparr>)"
      by (simp add: not_ok)
    with generic_cases(2) show ?thesis
      by blast
  next
    case True
    show ?thesis
    proof (cases "py_contains ''choices'' data")
      case (Inl e)
      with raised [OF True, of e] generic_cases(1) show ?thesis
        by blast
    next
      case (Inr success)
      show ?thesis
      proof (cases success)
        case False
        with Inr have "py_try (fallback_attempt service message) fallback_failed \<sigma> =
          (Inr (), \<sigma>\<lparr>messages := messages \<sigma> @ ?new\<rparr>)"
          by (simp add: not_ok)
        with generic_cases(2) show ?thesis
          by blast
      next
        case True
        with Inr have c: "py_contains ''choices'' data = Inr True"
          by simp
        with fail Response \<open>status_code = 200\<close> obtain e where e: "content_of data = Inl e"
          by (cases "content_of data") (simp_all add: remote_succeeds_def)
        from raised [OF \<open>status_code = 200\<close>, of e] c e
        have "py_try (fallback_attempt service message) fallback_failed \<sigma> =
            (Inr (), \<sigma>\<lparr>messages := messages \<sigma> @ [JStr trouble_message]\<rparr>)"
          by blast
        with generic_cases(1) show ?thesis
          by blast
      qed
    qed
  qed
qed

lemma try_fallback_succeeds:
  assumes "remote_succeeds (service (system_prompt []) message)"
  shows "\<exists>ai. py_try (fallback_attempt service message) fallback_failed \<sigma> =
            (Inr (), \<sigma>\<lparr>messages := messages \<sigma> @ [ai]\<rparr>)"
proof -
  from assms obtain status_code data where r: "service (system_prompt []) message =
      Response status_code data"
    by (cases "service (system_prompt []) message") (simp_all add: remote_succeeds_def)
  with assms have s: "status_code = 200" and c: "py_contains ''choices'' data = Inr True"
    by (simp_all add: remote_succeeds_def)
  from assms r obtain ai where ai: "content_of data = Inr ai"
    by (cases "content_of data") (simp_all add: remote_succeeds_def)
  have "py_try (fallback_attempt service message) fallback_failed \<sigma> =
            (Inr (), \<sigma>\<lparr>messages := messages \<sigma> @ [ai]\<rparr>)"
    by (simp add: py_try_def fallback_attempt_def post_def r s c ai utter_message_def)
  then show ?thesis by blast
qed

lemma try_fallback_returns:
  "fst (py_try (fallback_attempt service message) fallback_failed \<sigma>) = Inr ()"
proof (cases "remote_succeeds (service (system_prompt []) message)")
  case True
  from try_fallback_succeeds [where service = service and message = message and \<sigma> = \<sigma>, OF True]
  show ?thesis by auto
next
  case False
  from try_fallback_fails [where service = service and message = message and \<sigma> = \<sigma>, OF False]
  show ?thesis by auto
qed

lemma fallback_api_run_predefined:
  assumes "detect_emotion emotion_model (latest_message_text tracker) = Inr r"
    and "next_random \<sigma> < d0_7" "map_of EMPATHETIC_RESPONSES (emotion r) = Some rs"
  shows "fallback_api_run emotion_model service tracker \<sigma> =
     (Inr [SlotSet ''detected_emotion'' (emotion r)],
      \<sigma>\<lparr>cursor := cursor \<sigma> + 2,
        messages := messages \<sigma> @ [JStr (rs ! (draws \<sigma> (cursor \<sigma> + 1) mod length rs))]\<rparr>)"
proof -
  have ne: "rs \<noteq> []"
    using assms(3) by (rule empathetic_nonempty)
  have sub: "subscript EMPATHETIC_RESPONSES (emotion r) = Inr rs"
    using assms(3) by (simp add: subscript_def)
  have k: "has_key (emotion r) EMPATHETIC_RESPONSES"
    using assms(3) by (simp add: has_key_def)
  show ?thesis
    using assms(1,2) k
    by (simp add: fallback_api_run_def latest_message_text_def [symmetric] Let_def sub ne
        py_return_def)
qed

lemma fallback_api_run_remote:
  assumes "detect_emotion emotion_model (latest_message_text tracker) = Inr r"
    and "\<not> (next_random \<sigma> < d0_7 \<and> has_key (emotion r) EMPATHETIC_RESPONSES)"
    and "py_try (fallback_attempt service (latest_message_text tracker)) fallback_failed
           (\<sigma>\<lparr>cursor := cursor \<sigma> + 1\<rparr>) = (Inr (), \<sigma>')"
  shows "fallback_api_run emotion_model service tracker \<sigma> =
     (Inr [SlotSet ''detected_emotion'' (emotion r)], \<sigma>')"
proof -
  have "fallback_api_run emotion_model service tracker \<sigma> =
      py_bind (py_try (fallback_attempt service (latest_message_text tracker)) fallback_failed)
        (\<lambda>_. py_return [SlotSet ''detected_emotion'' (emotion r)]) (\<sigma>\<lparr>cursor := cursor \<sigma> + 1\<rparr>)"
    using assms(1,2)
    by (auto simp add: fallback_api_run_def latest_message_text_def [symmetric] Let_def)
  also have "\<dots> = (Inr [SlotSet ''detected_emotion'' (emotion r)], \<sigma>')"
    by (simp only: py_bind_def assms(3)) (simp add: py_return_def)
  finally show ?thesis .
qed

lemma fallback_api_run_returns:
  assumes "detect_emotion emotion_model (latest_message_text tracker) = Inr r"
  shows "fst (fallback_api_run emotion_model service tracker \<sigma>) =
     Inr [SlotSet ''detected_emotion'' (emotion r)]"
proof (cases "next_random \<sigma> < d0_7 \<and> has_key (emotion r) EMPATHETIC_RESPONSES")
  case True
  then obtain rs where "map_of EMPATHETIC_RESPONSES (emotion r) = Some rs"
    using subscript_has_key by blast
  from fallback_api_run_predefined [OF assms _ this, of \<sigma> service] True show ?thesis
    by simp
next
  case False
  let ?\<sigma> = "\<sigma>\<lparr>cursor := cursor \<sigma> + 1\<rparr>"
  from try_fallback_returns [of service "latest_message_text tracker" ?\<sigma>]
  obtain \<sigma>' where "py_try (fallback_attempt service (latest_message_text tracker)) fallback_failed
           ?\<sigma> = (Inr (), \<sigma>')"
    by (metis prod.collapse)
  from fallback_api_run_remote [OF assms False this] show ?thesis
    by simp
qed

text \<open>The failures after which exactly one text is sent.\<close>

lemma failure_kinds:
  "\<not> remote_succeeds outcome \<longleftrightarrow> call_raises outcome \<or> call_not_ok outcome"
proof (cases outcome)
  case (Raises e)
  then show ?thesis
    by (simp add: remote_succeeds_def call_raises_def call_not_ok_def)
next
  case (Response status_code data)
  show ?thesis
  proof (cases "py_contains ''choices'' data")
    case (Inl e)
    with Response show ?thesis
      by (simp add: remote_succeeds_def call_raises_def call_not_ok_def)
  next
    case (Inr b)
    with Response show ?thesis
      by (cases b) (auto simp add: remote_succeeds_def call_raises_def call_not_ok_def)
  qed
qed

lemma py_get_object:
  "body_is_object (Response status_code data) \<Longrightarrow> \<exists>v. py_get data k dflt = Inr v"
  by (cases data) (simp_all add: body_is_object_def)

lemma try_remote_one:
  assumes rs: "map_of EMPATHETIC_RESPONSES emo = Some rs"
    and out: "service (system_prompt ctx) message = outcome"
    and kind: "call_raises outcome \<or> call_not_ok outcome \<and> body_is_object outcome"
  shows "py_try (remote_attempt service ctx message emo) (remote_failed emo) \<sigma> =
     (Inr (), \<sigma>\<lparr>cursor := cursor \<sigma> + 1,
               messages := messages \<sigma> @ [JStr (rs ! (draws \<sigma> (cursor \<sigma>) mod length rs))]\<rparr>)"
proof -
  have ne: "rs \<noteq> []"
    using rs by (rule empathetic_nonempty)
  have sub: "subscript EMPATHETIC_RESPONSES emo = Inr rs"
    using rs by (simp add: subscript_def)
  note rf = remote_failed_eq [OF rs]
  show ?thesis
  proof (cases outcome)
    case (Raises e)
    with out show ?thesis
      by (simp add: py_try_def remote_attempt_def post_def rf)
  next
    case (Response status_code data)
    from kind show ?thesis
    proof
      assume "call_raises outcome"
      with Response have s: "status_code = 200"
        and c: "isl (py_contains ''choices'' data) \<or>
           py_contains ''choices'' data = Inr True \<and> isl (content_of data)"
        by (simp_all add: call_raises_def)
      from c show ?thesis
      proof
        assume "isl (py_contains ''choices'' data)"
        then obtain e where "py_contains ''choices'' data = Inl e"
          by (cases "py_contains ''choices'' data") simp_all
        with out Response s show ?thesis
          by (simp add: py_try_def remote_attempt_def post_def rf)
      next
        assume a: "py_contains ''choices'' data = Inr True \<and> isl (content_of data)"
        then obtain e where "content_of data = Inl e"
          by (cases "content_of data") simp_all
        with a out Response s show ?thesis
          by (simp add: py_try_def remote_attempt_def post_def rf)
      qed
    next
      assume a: "call_not_ok outcome \<and> body_is_object outcome"
      with Response py_get_object [of status_code data "''error''" "JStr ''Unknown error''"]
      obtain v where v: "py_get data ''error'' (JStr ''Unknown error'') = Inr v"
        by blast
      from a Response have "status_code \<noteq> 200 \<or> py_contains ''choices'' data = Inr False"
        by (simp add: call_not_ok_def)
      with out Response v show ?thesis
        by (auto simp add: py_try_def remote_attempt_def post_def sub ne py_return_def)
    qed
  qed
qed

lemma call_fallback_api_one:
  assumes rs: "map_of EMPATHETIC_RESPONSES emo = Some rs"
    and u: "\<not> next_random \<sigma> < d0_7"
    and out: "service (system_prompt (''The user seems to be feeling '' @ emo @ ''. '')) message =
        outcome"
    and kind: "call_raises outcome \<or> call_not_ok outcome \<and> body_is_object outcome"
  shows "call_fallback_api service message emo \<sigma> =
     (Inr [SlotSet ''detected_emotion'' emo],
      \<sigma>\<lparr>cursor := cursor \<sigma> + 2,
        messages := messages \<sigma> @ [JStr (rs ! (draws \<sigma> (cursor \<sigma> + 1) mod length rs))]\<rparr>)"
proof -
  let ?\<sigma> = "\<sigma>\<lparr>cursor := cursor \<sigma> + 1\<rparr>"
  from u have n: "\<not> (next_random \<sigma> < d0_7 \<and> has_key emo EMPATHETIC_RESPONSES)"
    by simp
  note t = try_remote_one [where service = service and message = message
      and ctx = "''The user seems to be feeling '' @ emo @ ''. ''" and \<sigma> = ?\<sigma>,
      OF rs out kind]
  from call_fallback_api_remote [OF n t] show ?thesis
    by simp
qed

lemma try_fallback_raises:
  assumes out: "service (system_prompt []) message = outcome"
    and kind: "call_raises outcome"
  shows "py_try (fallback_attempt service message) fallback_failed \<sigma> =
      (Inr (), \<sigma>\<lparr>messages := messages \<sigma> @ [JStr trouble_message]\<rparr>)"
proof (cases outcome)
  case (Raises e)
  with out show ?thesis
    by (simp add: py_try_def fallback_attempt_def post_def fallback_failed_eq)
next
  case (Response status_code data)
  with kind have s: "status_code = 200"
    and c: "isl (py_contains ''choices'' data) \<or>
           py_contains ''choices'' data = Inr True \<and> isl (content_of data)"
    by (simp_all add: call_raises_def)
  from c show ?thesis
  proof
    assume "isl (py_contains ''choices'' data)"
    then obtain e where "py_contains ''choices'' data = Inl e"
      by (cases "py_contains ''choices'' data") simp_all
    with out Response s show ?thesis
      by (simp add: py_try_def fallback_attempt_def post_def fallback_failed_eq)
  next
    assume a: "py_contains ''choices'' data = Inr True \<and> isl (content_of data)"
    then obtain e where "content_of data = Inl e"
      by (cases "content_of data") simp_all
    with a out Response s show ?thesis
      by (simp add: py_try_def fallback_attempt_def post_def fallback_failed_eq)
  qed
qed

lemma try_fallback_not_ok:
  assumes out: "service (system_prompt []) message = outcome"
    and kind: "call_not_ok outcome" "body_is_object outcome"
  shows "py_try (fallback_attempt service message) fallback_failed \<sigma> =
      (Inr (), \<sigma>\<lparr>messages := messages \<sigma> @ [JStr not_sure_message]\<rparr>)"
proof (cases outcome)
  case (Raises e)
  with kind show ?thesis
    by (simp add: call_not_ok_def)
next
  case (Response status_code data)
  with kind(2) py_get_object [of status_code data "''error''" "JStr ''Unknown error''"]
  obtain v where v: "py_get data ''error'' (JStr ''Unknown error'') = Inr v"
    by blast
  from kind(1) Response have "status_code \<noteq> 200 \<or> py_contains ''choices'' data = Inr False"
    by (simp add: call_not_ok_def)
  with out Response v show ?thesis
    by (auto simp add: py_try_def fallback_attempt_def post_def py_return_def)
qed

lemma fallback_api_run_raises:
  assumes "detect_emotion emotion_model (latest_message_text tracker) = Inr r"
    and "\<not> (next_random \<sigma> < d0_7 \<and> has_key (emotion r) EMPATHETIC_RESPONSES)"
    and "service (system_prompt []) (latest_message_text tracker) = outcome"
    and "call_raises outcome"
  shows "fallback_api_run emotion_model service tracker \<sigma> =
     (Inr [SlotSet ''detected_emotion'' (emotion r)],
      \<sigma>\<lparr>cursor := cursor \<sigma> + 1, messages := messages \<sigma> @ [JStr trouble_message]\<rparr>)"
proof -
  note t = try_fallback_raises [where service = service
      and message = "latest_message_text tracker" and \<sigma> = "\<sigma>\<lparr>cursor := cursor \<sigma> + 1\<rparr>",
      OF assms(3,4)]
  from fallback_api_run_remote [OF assms(1,2) t] show ?thesis
    by simp
qed

lemma fallback_api_run_not_ok:
  assumes "detect_emotion emotion_model (latest_message_text tracker) = Inr r"
    and "\<not> (next_random \<sigma> < d0_7 \<and> has_key (emotion r) EMPATHETIC_RESPONSES)"
    and "service (system_prompt []) (latest_message_text tracker) = outcome"
    and "call_not_ok outcome" "body_is_object outcome"
  shows "fallback_api_run emotion_model service tracker \<sigma> =
     (Inr [SlotSet ''detected_emotion'' (emotion r)],
      \<sigma>\<lparr>cursor := cursor \<sigma> + 1, messages := messages \<sigma> @ [JStr not_sure_message]\<rparr>)"
proof -
  note t = try_fallback_not_ok [where service = service
      and message = "latest_message_text tracker" and \<sigma> = "\<sigma>\<lparr>cursor := cursor \<sigma> + 1\<rparr>",
      OF assms(3,4,5)]
  from fallback_api_run_remote [OF assms(1,2) t] show ?thesis
    by simp
qed

lemma process_message_low_confidence:
  assumes "detect_emotion emotion_model (latest_message_text tracker) = Inr r"
    and "(case intent_confidence tracker of None \<Rightarrow> 0 | Some c \<Rightarrow> c) < d0_3"
  shows "process_message_run emotion_model service tracker \<sigma> =
     call_fallback_api service (latest_message_text tracker) (emotion r) \<sigma>"
  using assms by (simp add: process_message_run_def Let_def)

subsection \<open>A label outside the tables\<close>

lemma detect_surprise:
  "detect_emotion (Some (\<lambda>t. Inr [(''Surprise'', 9 / 10)])) ''What a day'' =
     Inr \<lparr>emotion = ''surprise'', confidence = 9 / 10, method = ''flair'',
          all_emotions = Some [(''surprise'', 9 / 10)]\<rparr>"
  by code_simp

lemma low_confidence: "(1 / 10 :: rat) < d0_3"
  by code_simp

lemma unauthorized_fails:
  "\<not> remote_succeeds (Response 401 (JObj [(''error'', JStr ''Incorrect API key provided'')]))"
  by (simp add: remote_succeeds_def)

text \<open>
  Claim C1. Response selection is to raise nothing: on each of the five labels of the
  tables every branch completes (\<open>call_fallback_api_returns\<close>), and a label outside
  them is to fall back to \<^verbatim>\<open>neutral\<close>. The code has no such fallback in
  \<^verbatim>\<open>_call_fallback_api\<close>: the test \<^verbatim>\<open>emotion in EMPATHETIC_RESPONSES\<close> guards the predefined
  branch only, and the two lookups \<^verbatim>\<open>EMPATHETIC_RESPONSES[emotion]\<close> after a failed remote
  call are not guarded, the second one inside the \<^verbatim>\<open>except\<close> clause. Here the learned
  model labels the message \<^verbatim>\<open>Surprise\<close>, the confidence of the intent is \<^verbatim>\<open>0.1\<close> and the
  remote service answers with status 401: \<^verbatim>\<open>ActionProcessMessage.run\<close> raises
  \<^verbatim>\<open>KeyError\<close>. By \<open>call_fallback_api_unknown_label\<close> the same happens for every label
  outside the table and every failure of the remote call.
\<close>

theorem process_message_unknown_label_raises:
  "fst (process_message_run (Some (\<lambda>t. Inr [(''Surprise'', 9 / 10)]))
          (\<lambda>prompt msg. Response 401 (JObj [(''error'', JStr ''Incorrect API key provided'')]))
          \<lparr>latest_text = Some ''What a day'', intent_confidence = Some (1 / 10),
           detected_emotion_slot = None\<rparr>
          \<lparr>messages = [], draws = (\<lambda>n. 0), cursor = 0\<rparr>) = Inl KeyError"
proof -
  have nk: "\<not> has_key ''surprise'' EMPATHETIC_RESPONSES"
    by (simp add: has_key_iff empathetic_keys)
  have "process_message_run (Some (\<lambda>t. Inr [(''Surprise'', 9 / 10)]))
          (\<lambda>prompt msg. Response 401 (JObj [(''error'', JStr ''Incorrect API key provided'')]))
          \<lparr>latest_text = Some ''What a day'', intent_confidence = Some (1 / 10),
           detected_emotion_slot = None\<rparr>
          \<lparr>messages = [], draws = (\<lambda>n. 0), cursor = 0\<rparr> =
        call_fallback_api
          (\<lambda>prompt msg. Response 401 (JObj [(''error'', JStr ''Incorrect API key provided'')]))
          ''What a day'' ''surprise'' \<lparr>messages = [], draws = (\<lambda>n. 0), cursor = 0\<rparr>"
    using low_confidence
    by (simp add: process_message_run_def latest_message_text_def Let_def detect_surprise)
  then show ?thesis
    using call_fallback_api_unknown_label [OF nk, of
        "\<lambda>prompt msg. Response 401 (JObj [(''error'', JStr ''Incorrect API key provided'')])"
        "''What a day''" "\<lparr>messages = [], draws = (\<lambda>n. 0), cursor = 0\<rparr>"] unauthorized_fails
    by simp
qed

subsection \<open>What a failed remote call sends\<close>

lemma d0_7_value: "d0_7 = 3152519739159347 / 4503599627370496"
  by code_simp

lemma high_draw:
  "\<not> next_random \<lparr>messages = [], draws = (\<lambda>n. 9007199254740991), cursor = 0\<rparr> < d0_7"
  by (simp add: next_random_def d0_7_value)

lemma sadness_responses:
  "map_of EMPATHETIC_RESPONSES ''sadness'' = Some
     [''I hear that you're feeling down right now. That's completely valid, and I'm here to listen.'',
      ''It sounds like you're going through a difficult time. Remember that it's okay to feel sad sometimes.'',
      ''I'm sorry you're feeling this way. Would it help to talk more about what's troubling you?'',
      ''When we feel sad, it can be overwhelming. Let's take it one step at a time together.'',
      ''I understand that sadness can feel heavy. You don't have to carry that weight alone.'']"
  by (simp add: EMPATHETIC_RESPONSES_def)

lemma trouble_not_canned:
  "map_of EMPATHETIC_RESPONSES ''sadness'' = Some rs \<Longrightarrow> trouble_message \<notin> set rs"
  by (auto simp add: sadness_responses trouble_message_def)

text \<open>
  Claim C3, as it is stated, fails for \<^verbatim>\<open>ActionFallbackAPI.run\<close>: the message is
  detected as sadness, the first draw sends the handler to the remote service, the
  request raises, and the one text sent is the fixed text \<open>trouble_message\<close>, which is
  not in the predefined list of sadness.
\<close>

theorem fallback_api_generic_counterexample:
  "\<exists>r rs. detect_emotion None ''I am sad'' = Inr r \<and> emotion r = ''sadness'' \<and>
      subscript EMPATHETIC_RESPONSES (emotion r) = Inr rs \<and>
      \<not> remote_succeeds (Raises RequestException) \<and>
      messages (snd (fallback_api_run None (\<lambda>prompt msg. Raises RequestException)
         \<lparr>latest_text = Some ''I am sad'', intent_confidence = None,
          detected_emotion_slot = None\<rparr>
         \<lparr>messages = [], draws = (\<lambda>n. 9007199254740991), cursor = 0\<rparr>)) = [JStr trouble_message] \<and>
      trouble_message \<notin> set rs"
proof -
  let ?T = "\<lparr>latest_text = Some ''I am sad'', intent_confidence = None,
          detected_emotion_slot = None\<rparr>"
  let ?S = "\<lparr>messages = [], draws = (\<lambda>n. 9007199254740991), cursor = 0\<rparr>"
  let ?r = "\<lparr>emotion = ''sadness'', confidence = double (9 / 10), method = ''keywords'',
          all_emotions = None\<rparr>"
  obtain rs where rs: "map_of EMPATHETIC_RESPONSES ''sadness'' = Some rs"
    using sadness_responses by blast
  have d: "detect_emotion None (latest_message_text ?T) = Inr ?r"
    by (simp add: latest_message_text_def detect_sad)
  have t: "py_try (fallback_attempt (\<lambda>prompt msg. Raises RequestException)
             (latest_message_text ?T)) fallback_failed (?S\<lparr>cursor := cursor ?S + 1\<rparr>) =
        (Inr (), \<lparr>messages = [JStr trouble_message], draws = (\<lambda>n. 9007199254740991), cursor = 1\<rparr>)"
    by (simp add: py_try_def fallback_attempt_def post_def fallback_failed_eq)
  have "fallback_api_run None (\<lambda>prompt msg. Raises RequestException) ?T ?S =
      (Inr [SlotSet ''detected_emotion'' (emotion ?r)],
       \<lparr>messages = [JStr trouble_message], draws = (\<lambda>n. 9007199254740991), cursor = 1\<rparr>)"
    using high_draw by (intro fallback_api_run_remote [OF d _ t]) simp
  then have "messages (snd (fallback_api_run None (\<lambda>prompt msg. Raises RequestException) ?T ?S)) =
      [JStr trouble_message]"
    by simp
  moreover have "subscript EMPATHETIC_RESPONSES (emotion ?r) = Inr rs"
    using rs by (simp add: subscript_def)
  moreover have "\<not> remote_succeeds (Raises RequestException)"
    by (simp add: remote_succeeds_def)
  moreover note trouble_not_canned [OF rs] detect_sad
  ultimately show ?thesis
    by (intro exI [of _ ?r] exI [of _ rs]) simp
qed

lemma fixed_texts:
  "trouble_message =
     ''I'm having trouble processing your request right now. Let's try something else.''"
  "not_sure_message =
     ''I'm not sure how to respond to that. Could you rephrase or ask something else?''"
  by (simp_all add: trouble_message_def not_sure_message_def)

text \<open>
  Claim C3, amended. A call fails when it raises or when its result is not a success.
  For an emotion that is a key of \<^verbatim>\<open>EMPATHETIC_RESPONSES\<close>, the low-confidence path of
  \<^verbatim>\<open>ActionProcessMessage\<close>, which is \<^verbatim>\<open>_call_fallback_api\<close> on the detected emotion,
  returns exactly the update of the slot \<^verbatim>\<open>detected_emotion\<close> in every branch; when the
  first draw is not below \<^verbatim>\<open>0.7\<close> and the call raises, or its result is not a success and
  the body is a JSON object, it sends exactly one text, the string that the next draw
  selects in that emotion's predefined list. \<^verbatim>\<open>ActionFallbackAPI.run\<close>, for every message,
  returns exactly the update of the slot to the detected emotion; when it calls the
  remote service, it sends exactly one fixed text: \<open>trouble_message\<close> when the call
  raises, \<open>not_sure_message\<close> when the result is not a success and the body is a JSON
  object.
\<close>

theorem remote_failure_fallback:
  "(\<not> remote_succeeds outcome \<longleftrightarrow> call_raises outcome \<or> call_not_ok outcome) \<and>
   trouble_message =
     ''I'm having trouble processing your request right now. Let's try something else.'' \<and>
   not_sure_message =
     ''I'm not sure how to respond to that. Could you rephrase or ask something else?'' \<and>
   (has_key emo EMPATHETIC_RESPONSES \<longrightarrow>
      fst (call_fallback_api service message emo \<sigma>) = Inr [SlotSet ''detected_emotion'' emo] \<and>
      (\<not> next_random \<sigma> < d0_7 \<and>
       service (system_prompt (''The user seems to be feeling '' @ emo @ ''. '')) message =
         outcome \<and>
       (call_raises outcome \<or> call_not_ok outcome \<and> body_is_object outcome) \<longrightarrow>
       (\<exists>responses.
          subscript EMPATHETIC_RESPONSES emo = Inr responses \<and> responses \<noteq> [] \<and>
          call_fallback_api service message emo \<sigma> =
            (Inr [SlotSet ''detected_emotion'' emo],
             \<sigma>\<lparr>cursor := cursor \<sigma> + 2,
               messages := messages \<sigma> @
                 [JStr (responses ! (draws \<sigma> (cursor \<sigma> + 1) mod length responses))]\<rparr>)))) \<and>
   (\<exists>r. detect_emotion emotion_model (latest_message_text tracker) = Inr r \<and>
        fst (fallback_api_run emotion_model service tracker \<sigma>) =
          Inr [SlotSet ''detected_emotion'' (emotion r)] \<and>
        ((case intent_confidence tracker of None \<Rightarrow> 0 | Some c \<Rightarrow> c) < d0_3 \<longrightarrow>
           process_message_run emotion_model service tracker \<sigma> =
             call_fallback_api service (latest_message_text tracker) (emotion r) \<sigma>) \<and>
        (\<not> (next_random \<sigma> < d0_7 \<and> has_key (emotion r) EMPATHETIC_RESPONSES) \<and>
         service (system_prompt []) (latest_message_text tracker) = outcome \<longrightarrow>
           (call_raises outcome \<longrightarrow>
              fallback_api_run emotion_model service tracker \<sigma> =
                (Inr [SlotSet ''detected_emotion'' (emotion r)],
                 \<sigma>\<lparr>cursor := cursor \<sigma> + 1,
                   messages := messages \<sigma> @ [JStr trouble_message]\<rparr>)) \<and>
           (call_not_ok outcome \<and> body_is_object outcome \<longrightarrow>
              fallback_api_run emotion_model service tracker \<sigma> =
                (Inr [SlotSet ''detected_emotion'' (emotion r)],
                 \<sigma>\<lparr>cursor := cursor \<sigma> + 1,
                   messages := messages \<sigma> @ [JStr not_sure_message]\<rparr>))))"
proof -
  have pm: "fst (call_fallback_api service message emo \<sigma>) =
        Inr [SlotSet ''detected_emotion'' emo] \<and>
      (\<not> next_random \<sigma> < d0_7 \<and>
       service (system_prompt (''The user seems to be feeling '' @ emo @ ''. '')) message =
         outcome \<and>
       (call_raises outcome \<or> call_not_ok outcome \<and> body_is_object outcome) \<longrightarrow>
       (\<exists>responses.
          subscript EMPATHETIC_RESPONSES emo = Inr responses \<and> responses \<noteq> [] \<and>
          call_fallback_api service message emo \<sigma> =
            (Inr [SlotSet ''detected_emotion'' emo],
             \<sigma>\<lparr>cursor := cursor \<sigma> + 2,
               messages := messages \<sigma> @
                 [JStr (responses ! (draws \<sigma> (cursor \<sigma> + 1) mod length responses))]\<rparr>)))"
    if k: "has_key emo EMPATHETIC_RESPONSES"
  proof (intro conjI impI)
    show "fst (call_fallback_api service message emo \<sigma>) =
        Inr [SlotSet ''detected_emotion'' emo]"
      using k by (rule call_fallback_api_returns)
  next
    assume a: "\<not> next_random \<sigma> < d0_7 \<and>
       service (system_prompt (''The user seems to be feeling '' @ emo @ ''. '')) message =
         outcome \<and>
       (call_raises outcome \<or> call_not_ok outcome \<and> body_is_object outcome)"
    from subscript_has_key [OF k] obtain rs where rs: "map_of EMPATHETIC_RESPONSES emo = Some rs"
      "subscript EMPATHETIC_RESPONSES emo = Inr rs"
      by blast
    from a have u: "\<not> next_random \<sigma> < d0_7"
      and out: "service (system_prompt (''The user seems to be feeling '' @ emo @ ''. ''))
          message = outcome"
      and kind: "call_raises outcome \<or> call_not_ok outcome \<and> body_is_object outcome"
      by blast+
    note one = call_fallback_api_one [where service = service and message = message,
        OF rs(1) u out kind]
    from rs(2) empathetic_nonempty [OF rs(1)] one
    show "\<exists>responses.
          subscript EMPATHETIC_RESPONSES emo = Inr responses \<and> responses \<noteq> [] \<and>
          call_fallback_api service message emo \<sigma> =
            (Inr [SlotSet ''detected_emotion'' emo],
             \<sigma>\<lparr>cursor := cursor \<sigma> + 2,
               messages := messages \<sigma> @
                 [JStr (responses ! (draws \<sigma> (cursor \<sigma> + 1) mod length responses))]\<rparr>)"
      by blast
  qed
  obtain r where r: "detect_emotion emotion_model (latest_message_text tracker) = Inr r"
    using detect_emotion_Inr by blast
  have a: "fst (fallback_api_run emotion_model service tracker \<sigma>) =
          Inr [SlotSet ''detected_emotion'' (emotion r)]"
    using r by (rule fallback_api_run_returns)
  have b: "(case intent_confidence tracker of None \<Rightarrow> 0 | Some c \<Rightarrow> c) < d0_3 \<longrightarrow>
           process_message_run emotion_model service tracker \<sigma> =
             call_fallback_api service (latest_message_text tracker) (emotion r) \<sigma>"
    using process_message_low_confidence [OF r] by blast
  have c: "(call_raises outcome \<longrightarrow>
              fallback_api_run emotion_model service tracker \<sigma> =
                (Inr [SlotSet ''detected_emotion'' (emotion r)],
                 \<sigma>\<lparr>cursor := cursor \<sigma> + 1,
                   messages := messages \<sigma> @ [JStr trouble_message]\<rparr>)) \<and>
           (call_not_ok outcome \<and> body_is_object outcome \<longrightarrow>
              fallback_api_run emotion_model service tracker \<sigma> =
                (Inr [SlotSet ''detected_emotion'' (emotion r)],
                 \<sigma>\<lparr>cursor := cursor \<sigma> + 1,
                   messages := messages \<sigma> @ [JStr not_sure_message]\<rparr>))"
    if h: "\<not> (next_random \<sigma> < d0_7 \<and> has_key (emotion r) EMPATHETIC_RESPONSES) \<and>
         service (system_prompt []) (latest_message_text tracker) = outcome"
  proof -
    from h have n: "\<not> (next_random \<sigma> < d0_7 \<and> has_key (emotion r) EMPATHETIC_RESPONSES)"
      and out: "service (system_prompt []) (latest_message_text tracker) = outcome"
      by blast+
    note x = fallback_api_run_raises [where service = service, OF r n out]
    note y = fallback_api_run_not_ok [where service = service, OF r n out]
    from x y show ?thesis
      by blast
  qed
  have fb: "\<exists>r. detect_emotion emotion_model (latest_message_text tracker) = Inr r \<and>
        fst (fallback_api_run emotion_model service tracker \<sigma>) =
          Inr [SlotSet ''detected_emotion'' (emotion r)] \<and>
        ((case intent_confidence tracker of None \<Rightarrow> 0 | Some c \<Rightarrow> c) < d0_3 \<longrightarrow>
           process_message_run emotion_model service tracker \<sigma> =
             call_fallback_api service (latest_message_text tracker) (emotion r) \<sigma>) \<and>
        (\<not> (next_random \<sigma> < d0_7 \<and> has_key (emotion r) EMPATHETIC_RESPONSES) \<and>
         service (system_prompt []) (latest_message_text tracker) = outcome \<longrightarrow>
           (call_raises outcome \<longrightarrow>
              fallback_api_run emotion_model service tracker \<sigma> =
                (Inr [SlotSet ''detected_emotion'' (emotion r)],
                 \<sigma>\<lparr>cursor := cursor \<sigma> + 1,
                   messages := messages \<sigma> @ [JStr trouble_message]\<rparr>)) \<and>
           (call_not_ok outcome \<and> body_is_object outcome \<longrightarrow>
              fallback_api_run emotion_model service tracker \<sigma> =
                (Inr [SlotSet ''detected_emotion'' (emotion r)],
                 \<sigma>\<lparr>cursor := cursor \<sigma> + 1,
                   messages := messages \<sigma> @ [JStr not_sure_message]\<rparr>)))"
    using r a b c by blast
  from pm have pm': "has_key emo EMPATHETIC_RESPONSES \<longrightarrow>
      fst (call_fallback_api service message emo \<sigma>) = Inr [SlotSet ''detected_emotion'' emo] \<and>
      (\<not> next_random \<sigma> < d0_7 \<and>
       service (system_prompt (''The user seems to be feeling '' @ emo @ ''. '')) message =
         outcome \<and>
       (call_raises outcome \<or> call_not_ok outcome \<and> body_is_object outcome) \<longrightarrow>
       (\<exists>responses.
          subscript EMPATHETIC_RESPONSES emo = Inr responses \<and> responses \<noteq> [] \<and>
          call_fallback_api service message emo \<sigma> =
            (Inr [SlotSet ''detected_emotion'' emo],
             \<sigma>\<lparr>cursor := cursor \<sigma> + 2,
               messages := messages \<sigma> @
                 [JStr (responses ! (draws \<sigma> (cursor \<sigma> + 1) mod length responses))]\<rparr>)))"
    by blast
  show ?thesis
    by (intro conjI failure_kinds fixed_texts pm' fb)
qed


theorem remote_failure_fallback_witness:
  "call_fallback_api (\<lambda>prompt msg. Raises RequestException) ''I am sad'' ''sadness''
     \<lparr>messages = [], draws = (\<lambda>n. 9007199254740991), cursor = 0\<rparr> =
   (Inr [SlotSet ''detected_emotion'' ''sadness''],
    \<lparr>messages = [JStr ''It sounds like you're going through a difficult time. Remember that it's okay to feel sad sometimes.''],
     draws = (\<lambda>n. 9007199254740991), cursor = 2\<rparr>) \<and>
   fallback_api_run None (\<lambda>prompt msg. Raises RequestException)
     \<lparr>latest_text = Some ''I am sad'', intent_confidence = None, detected_emotion_slot = None\<rparr>
     \<lparr>messages = [], draws = (\<lambda>n. 9007199254740991), cursor = 0\<rparr> =
   (Inr [SlotSet ''detected_emotion'' ''sadness''],
    \<lparr>messages = [JStr ''I'm having trouble processing your request right now. Let's try something else.''],
     draws = (\<lambda>n. 9007199254740991), cursor = 1\<rparr>) \<and>
   fallback_api_run None
     (\<lambda>prompt msg. Response 401 (JObj [(''error'', JStr ''Incorrect API key provided'')]))
     \<lparr>latest_text = Some ''I am sad'', intent_confidence = None, detected_emotion_slot = None\<rparr>
     \<lparr>messages = [], draws = (\<lambda>n. 9007199254740991), cursor = 0\<rparr> =
   (Inr [SlotSet ''detected_emotion'' ''sadness''],
    \<lparr>messages = [JStr ''I'm not sure how to respond to that. Could you rephrase or ask something else?''],
     draws = (\<lambda>n. 9007199254740991), cursor = 1\<rparr>)"
proof -
  let ?R = "\<lambda>prompt msg. Raises RequestException :: http_outcome"
  let ?U = "\<lambda>prompt msg. Response 401 (JObj [(''error'', JStr ''Incorrect API key provided'')])
              :: http_outcome"
  let ?T = "\<lparr>latest_text = Some ''I am sad'', intent_confidence = None,
           detected_emotion_slot = None\<rparr>"
  let ?E = "\<lparr>messages = [], draws = (\<lambda>n. 9007199254740991), cursor = 0\<rparr>"
  let ?r = "\<lparr>emotion = ''sadness'', confidence = double (9 / 10), method = ''keywords'',
          all_emotions = None\<rparr>"
  note A = remote_failure_fallback [where outcome = "Raises RequestException"
      and emo = "''sadness''" and service = ?R and message = "''I am sad''" and \<sigma> = ?E
      and emotion_model = None and tracker = ?T]
  note B = remote_failure_fallback [where
      outcome = "Response 401 (JObj [(''error'', JStr ''Incorrect API key provided'')])"
      and emo = "''sadness''" and service = ?U and message = "''I am sad''" and \<sigma> = ?E
      and emotion_model = None and tracker = ?T]
  have k: "has_key ''sadness'' EMPATHETIC_RESPONSES"
    by (simp add: has_key_iff empathetic_keys)
  have raises: "call_raises (Raises RequestException)"
    by (simp add: call_raises_def)
  have not_ok: "call_not_ok (Response 401 (JObj [(''error'', JStr ''Incorrect API key provided'')]))"
    "body_is_object (Response 401 (JObj [(''error'', JStr ''Incorrect API key provided'')]))"
    by (simp_all add: call_not_ok_def body_is_object_def)
  have d: "detect_emotion None (latest_message_text ?T) = Inr ?r"
    by (simp add: latest_message_text_def detect_sad)
  have texts: "trouble_message =
     ''I'm having trouble processing your request right now. Let's try something else.''"
    "not_sure_message =
     ''I'm not sure how to respond to that. Could you rephrase or ask something else?''"
    using A by blast+
  from A k have "\<not> next_random ?E < d0_7 \<and>
       ?R (system_prompt (''The user seems to be feeling '' @ ''sadness'' @ ''. '')) ''I am sad'' =
         Raises RequestException \<and>
       (call_raises (Raises RequestException) \<or>
        call_not_ok (Raises RequestException) \<and> body_is_object (Raises RequestException)) \<longrightarrow>
       (\<exists>responses.
          subscript EMPATHETIC_RESPONSES ''sadness'' = Inr responses \<and> responses \<noteq> [] \<and>
          call_fallback_api ?R ''I am sad'' ''sadness'' ?E =
            (Inr [SlotSet ''detected_emotion'' ''sadness''],
             ?E\<lparr>cursor := cursor ?E + 2,
               messages := messages ?E @
                 [JStr (responses ! (draws ?E (cursor ?E + 1) mod length responses))]\<rparr>))"
    by blast
  with high_draw raises obtain responses where
    resp: "subscript EMPATHETIC_RESPONSES ''sadness'' = Inr responses"
    and run: "call_fallback_api ?R ''I am sad'' ''sadness'' ?E =
            (Inr [SlotSet ''detected_emotion'' ''sadness''],
             ?E\<lparr>cursor := cursor ?E + 2,
               messages := messages ?E @
                 [JStr (responses ! (draws ?E (cursor ?E + 1) mod length responses))]\<rparr>)"
    by blast
  from resp have rs: "responses =
     [''I hear that you're feeling down right now. That's completely valid, and I'm here to listen.'',
      ''It sounds like you're going through a difficult time. Remember that it's okay to feel sad sometimes.'',
      ''I'm sorry you're feeling this way. Would it help to talk more about what's troubling you?'',
      ''When we feel sad, it can be overwhelming. Let's take it one step at a time together.'',
      ''I understand that sadness can feel heavy. You don't have to carry that weight alone.'']"
    by (simp add: subscript_def sadness_responses)
  have 1: "call_fallback_api ?R ''I am sad'' ''sadness'' ?E =
   (Inr [SlotSet ''detected_emotion'' ''sadness''],
    \<lparr>messages = [JStr ''It sounds like you're going through a difficult time. Remember that it's okay to feel sad sometimes.''],
     draws = (\<lambda>n. 9007199254740991), cursor = 2\<rparr>)"
    unfolding run rs by simp
  have reach: "\<not> (next_random ?E < d0_7 \<and> has_key (emotion ?r) EMPATHETIC_RESPONSES)"
    using high_draw by simp
  from A d obtain r where r: "r = ?r"
    and a: "\<not> (next_random ?E < d0_7 \<and> has_key (emotion r) EMPATHETIC_RESPONSES) \<and>
         ?R (system_prompt []) (latest_message_text ?T) = Raises RequestException \<longrightarrow>
           (call_raises (Raises RequestException) \<longrightarrow>
              fallback_api_run None ?R ?T ?E =
                (Inr [SlotSet ''detected_emotion'' (emotion r)],
                 ?E\<lparr>cursor := cursor ?E + 1,
                   messages := messages ?E @ [JStr trouble_message]\<rparr>))"
    by auto
  from a r reach raises have 2: "fallback_api_run None ?R ?T ?E =
   (Inr [SlotSet ''detected_emotion'' ''sadness''],
    \<lparr>messages = [JStr ''I'm having trouble processing your request right now. Let's try something else.''],
     draws = (\<lambda>n. 9007199254740991), cursor = 1\<rparr>)"
    by (simp add: texts)
  from B d obtain r' where r': "r' = ?r"
    and b: "\<not> (next_random ?E < d0_7 \<and> has_key (emotion r') EMPATHETIC_RESPONSES) \<and>
         ?U (system_prompt []) (latest_message_text ?T) =
           Response 401 (JObj [(''error'', JStr ''Incorrect API key provided'')]) \<longrightarrow>
           (call_not_ok (Response 401 (JObj [(''error'', JStr ''Incorrect API key provided'')])) \<and>
            body_is_object (Response 401 (JObj [(''error'', JStr ''Incorrect API key provided'')]))
            \<longrightarrow>
              fallback_api_run None ?U ?T ?E =
                (Inr [SlotSet ''detected_emotion'' (emotion r')],
                 ?E\<lparr>cursor := cursor ?E + 1,
                   messages := messages ?E @ [JStr not_sure_message]\<rparr>))"
    by auto
  from b r' reach not_ok have 3: "fallback_api_run None ?U ?T ?E =
   (Inr [SlotSet ''detected_emotion'' ''sadness''],
    \<lparr>messages = [JStr ''I'm not sure how to respond to that. Could you rephrase or ask something else?''],
     draws = (\<lambda>n. 9007199254740991), cursor = 1\<rparr>)"
    by (simp add: texts)
  from 1 2 3 show ?thesis
    by (intro conjI)
qed

end
